theory Spec2Isabelle
  imports Main "HOL-Library.Word" "HOL-Library.Multiset"
begin

section \<open>Strings of the host language\<close>

text \<open>
  A TypeScript string is a sequence of UTF-16 code units, and \<open>length\<close> counts code
  units. Literals of the source are written with \<open>js\<close>.
\<close>

type_synonym code_unit = "16 word"
type_synonym jsstring = "code_unit list"

definition js :: "string \<Rightarrow> jsstring" where
  "js s = map of_char s"

text \<open>
  \<open>String.prototype.trim\<close> strips the code units of the WhiteSpace and LineTerminator
  productions from both ends: TAB, LF, VT, FF, CR, SP, NBSP, U+1680, U+2000 to U+200A,
  U+2028, U+2029, U+202F, U+205F, U+3000 and the byte order mark U+FEFF.
\<close>

definition isWhiteSpace :: "code_unit \<Rightarrow> bool" where
  "isWhiteSpace c \<longleftrightarrow>
     c \<in> set [0x9, 0xA, 0xB, 0xC, 0xD, 0x20, 0xA0, 0x1680, 0x2028, 0x2029, 0x202F, 0x205F,
              0x3000, 0xFEFF]
     \<or> (0x2000 \<le> c \<and> c \<le> 0x200A)"

definition trim :: "jsstring \<Rightarrow> jsstring" where
  "trim s = rev (dropWhile isWhiteSpace (rev (dropWhile isWhiteSpace s)))"

text \<open>
  A template literal renders a non-negative integer (here \<open>index + 1\<close>, an array
  index) in decimal.
\<close>

definition digit :: "nat \<Rightarrow> code_unit" where
  "digit d = of_nat (48 + d)"

fun numberToString :: "nat \<Rightarrow> jsstring" where
  "numberToString n =
     (if n < 10 then [digit n] else numberToString (n div 10) @ [digit (n mod 10)])"

declare numberToString.simps [simp del]

text \<open>\<open>Array.prototype.join\<close> with a separator.\<close>

fun join :: "jsstring \<Rightarrow> jsstring list \<Rightarrow> jsstring" where
  "join sep [] = []"
| "join sep [x] = x"
| "join sep (x # y # ys) = x @ sep @ join sep (y # ys)"

section \<open>Regular expressions of \<open>sanitizeString\<close>\<close>

text \<open>
  Both patterns of \<open>sanitizeString\<close> are concatenations of terms that match one code
  unit, some of them under a greedy or a lazy star. \<open>match_here\<close> is the backtracking
  matcher for such a pattern at the start of a string: a greedy star tries the longer
  repetition first, a lazy star the shorter, and the first alternative that lets the
  rest of the pattern match wins. The result is the unmatched rest of the string.
\<close>

datatype item =
    One "code_unit \<Rightarrow> bool"
  | Greedy "code_unit \<Rightarrow> bool"
  | Lazy "code_unit \<Rightarrow> bool"

fun match_here :: "item list \<Rightarrow> jsstring \<Rightarrow> jsstring option" where
  "match_here [] s = Some s"
| "match_here (One c # r) [] = None"
| "match_here (One c # r) (x # xs) = (if c x then match_here r xs else None)"
| "match_here (Lazy c # r) [] = match_here r []"
| "match_here (Lazy c # r) (x # xs) =
     (case match_here r (x # xs) of
        Some t \<Rightarrow> Some t
      | None \<Rightarrow> if c x then match_here (Lazy c # r) xs else None)"
| "match_here (Greedy c # r) [] = match_here r []"
| "match_here (Greedy c # r) (x # xs) =
     (if c x then
        (case match_here (Greedy c # r) xs of
           Some t \<Rightarrow> Some t
         | None \<Rightarrow> match_here r (x # xs))
      else match_here r (x # xs))"

text \<open>
  \<open>s.replace(re, '')\<close> with the \<open>g\<close> flag: scanning from the left, every match
  is dropped and the search goes on behind it; where nothing (or only the empty string)
  matches, the code unit is kept.
\<close>

function replaceAll :: "item list \<Rightarrow> jsstring \<Rightarrow> jsstring" where
  "replaceAll re [] = []"
| "replaceAll re (x # xs) =
     (case match_here re (x # xs) of
        None \<Rightarrow> x # replaceAll re xs
      | Some t \<Rightarrow> if length t < length (x # xs) then replaceAll re t
                  else x # replaceAll re xs)"
  by pat_completeness auto
termination
  by (relation "measure (\<lambda>(re, s). length s)") auto

text \<open>
  The classes of the two patterns. With the \<open>i\<close> flag and no \<open>u\<close> flag a letter of
  the pattern matches its two ASCII cases only (a code unit above 127 is never folded
  onto an ASCII one). \<open>.\<close> matches everything but the line terminators LF, CR, U+2028
  and U+2029, since the \<open>s\<close> flag is absent.
\<close>

definition lit :: "char \<Rightarrow> code_unit \<Rightarrow> bool" where
  "lit a c \<longleftrightarrow> c = of_char a"

definition lit_i :: "char \<Rightarrow> char \<Rightarrow> code_unit \<Rightarrow> bool" where
  "lit_i lower upper c \<longleftrightarrow> c = of_char lower \<or> c = of_char upper"

definition not_gt :: "code_unit \<Rightarrow> bool" where
  "not_gt c \<longleftrightarrow> c \<noteq> of_char CHR ''>''"

definition dot :: "code_unit \<Rightarrow> bool" where
  "dot c \<longleftrightarrow> c \<notin> set [0xA, 0xD, 0x2028, 0x2029]"

definition script_word :: "item list" where
  "script_word =
     [One (lit_i CHR ''s'' CHR ''S''), One (lit_i CHR ''c'' CHR ''C''),
      One (lit_i CHR ''r'' CHR ''R''), One (lit_i CHR ''i'' CHR ''I''),
      One (lit_i CHR ''p'' CHR ''P''), One (lit_i CHR ''t'' CHR ''T'')]"

text \<open>\<^verbatim>\<open>/<script[^>]*>.*?<\/script>/gi\<close>\<close>

definition script_re :: "item list" where
  "script_re =
     [One (lit CHR ''<'')] @ script_word @ [Greedy not_gt, One (lit CHR ''>''), Lazy dot,
      One (lit CHR ''<''), One (lit CHR ''/'')] @ script_word @ [One (lit CHR ''>'')]"

text \<open>\<^verbatim>\<open>/<[^>]*>/g\<close>\<close>

definition tag_re :: "item list" where
  "tag_re = [One (lit CHR ''<''), Greedy not_gt, One (lit CHR ''>'')]"

definition sanitizeString :: "jsstring \<Rightarrow> jsstring" where
  "sanitizeString input = replaceAll tag_re (replaceAll script_re (trim input))"

section \<open>Validation\<close>

text \<open>
  The question comes from \<open>formData.get\<close>, which is \<open>null\<close> when the field is
  missing: \<open>None\<close> here. \<open>!question\<close> holds for \<open>null\<close> and for the empty string,
  \<open>!option\<close> for the empty string. \<open>validatePollInput\<close> pushes its messages in
  three blocks, which are \<open>validateQuestion\<close>, \<open>validateCount\<close> and, for the
  \<open>forEach\<close> over the options with its index, \<open>validateOptions\<close>.
\<close>

fun validateOptions :: "nat \<Rightarrow> jsstring list \<Rightarrow> jsstring list" where
  "validateOptions index [] = []"
| "validateOptions index (opt # rest) =
     (if opt = [] \<or> length (trim opt) = 0 then
        [js ''Option '' @ numberToString (index + 1) @ js '' cannot be empty'']
      else if length (trim opt) > 200 then
        [js ''Option '' @ numberToString (index + 1) @ js '' must be less than 200 characters'']
      else [])
     @ validateOptions (index + 1) rest"

definition validateQuestion :: "jsstring option \<Rightarrow> jsstring list" where
  "validateQuestion question =
     (case question of
        None \<Rightarrow> [js ''Question is required'']
      | Some q \<Rightarrow>
          if q = [] \<or> length (trim q) = 0 then [js ''Question is required'']
          else if length (trim q) > 500 then [js ''Question must be less than 500 characters'']
          else [])"

definition validateCount :: "jsstring list \<Rightarrow> jsstring list" where
  "validateCount opts =
     (if length opts < 2 then [js ''At least 2 options are required'']
      else if length opts > 10 then [js ''Maximum 10 options allowed'']
      else [])"

definition validatePollInput :: "jsstring option \<Rightarrow> jsstring list \<Rightarrow> jsstring list" where
  "validatePollInput question opts =
     validateQuestion question @ validateCount opts @ validateOptions 0 opts"

section \<open>Data model\<close>

text \<open>
  Rows of the two tables and the identity returned by the authentication service. The
  fields are the columns the handlers read and write: \<open>id\<close>, \<open>user_id\<close>,
  \<open>question\<close>, \<open>options\<close> and \<open>created_at\<close> of \<open>polls\<close>; \<open>poll_id\<close>,
  \<open>user_id\<close> (nullable) and \<open>option_index\<close> of \<open>votes\<close>. The role is
  \<open>user.user_metadata?.role\<close>, \<open>None\<close> when it is absent or not a string. A
  timestamp is a point on the clock of the database; \<open>option_index\<close> is taken at the
  integer values of \<open>number\<close>.
\<close>

record user =
  u_id :: jsstring
  u_role :: "jsstring option"

record poll =
  p_id :: jsstring
  p_user_id :: jsstring
  p_question :: jsstring
  p_options :: "jsstring list"
  p_created_at :: nat

record vote =
  v_poll_id :: jsstring
  v_user_id :: "jsstring option"
  v_option_index :: int

text \<open>
  A submitted form is its list of name and value entries, in order, the values being
  strings: \<open>get\<close> is the first value of a name or \<open>null\<close>, \<open>getAll\<close> all its
  values.
\<close>

type_synonym formData = "(jsstring \<times> jsstring) list"

definition formData_get :: "formData \<Rightarrow> jsstring \<Rightarrow> jsstring option" where
  "formData_get fd name = map_of fd name"

definition formData_getAll :: "formData \<Rightarrow> jsstring \<Rightarrow> jsstring list" where
  "formData_getAll fd name = map snd (filter (\<lambda>entry. fst entry = name) fd)"

section \<open>The external collaborators\<close>

text \<open>
  A handler talks to the authentication service, the database and the cache of the
  framework. Every call is recorded in the trace of the world, in the order in which
  it is made, together with the filters of a query as the \<open>.eq(column, value)\<close>
  chain gives them.
\<close>

datatype column = Id | User_id

datatype cond = Eq column jsstring

text \<open>
  The ordering of a select, as \<open>.order(column, { ascending })\<close> gives it: the column
  and whether the rows come ascending. The only column the handlers order by is
  \<open>created_at\<close>. A select without \<open>.order\<close> has no ordering, and one that ends in
  \<open>.single()\<close> asks for exactly one row.
\<close>

datatype sort_column = Created_at

datatype order_by = Order sort_column bool

datatype event =
    GetUser
  | InsertPoll jsstring jsstring "jsstring list"
  | UpdatePolls jsstring "jsstring list" "cond list"
  | DeletePolls "cond list"
  | SelectPolls "cond list" "order_by option"
  | SelectSingle "cond list"
  | InsertVote vote
  | RevalidatePath jsstring

record world =
  polls :: "poll list"
  votes :: "vote list"
  trace :: "event list"

text \<open>
  What the collaborators answer during one request: the user and the error of
  \<open>auth.getUser()\<close>, the error message of the database call if the database reports
  one, the identifier and timestamp the database gives to an inserted poll, and the
  message of the database for a \<open>.single()\<close> select that does not find exactly one row.
\<close>

record env =
  auth_user :: "user option"
  auth_error :: "jsstring option"
  db_error :: "jsstring option"
  db_new_id :: jsstring
  db_now :: nat
  db_single_error :: jsstring

definition emit :: "event \<Rightarrow> world \<Rightarrow> world" where
  "emit ev w = w\<lparr>trace := trace w @ [ev]\<rparr>"

definition auth_getUser :: "env \<Rightarrow> world \<Rightarrow> (user option \<times> jsstring option) \<times> world" where
  "auth_getUser e w = ((auth_user e, auth_error e), emit GetUser w)"

definition revalidatePath :: "jsstring \<Rightarrow> world \<Rightarrow> world" where
  "revalidatePath path w = emit (RevalidatePath path) w"

text \<open>
  Modelled from the spec: the query interface of the database, which is not part of the
  sources. It offers insert row, select rows by filter predicate and ordering, update
  rows matching a filter and delete rows matching a filter, on the tables \<open>polls\<close> and
  \<open>votes\<close>. A row matches when every \<open>eq\<close> condition of the query holds for it. A
  call for which the database reports an error changes no table. A select returns the
  matching rows in the ordering it is given: ascending or descending by the column, rows
  with equal keys in either order of the two; without an ordering the rows come as the
  table holds them.
\<close>

fun holds :: "poll \<Rightarrow> cond \<Rightarrow> bool" where
  "holds p (Eq Id v) = (p_id p = v)"
| "holds p (Eq User_id v) = (p_user_id p = v)"

definition matching :: "cond list \<Rightarrow> poll \<Rightarrow> bool" where
  "matching cs p = list_all (holds p) cs"

definition insert_polls ::
  "env \<Rightarrow> jsstring \<Rightarrow> jsstring \<Rightarrow> jsstring list \<Rightarrow> world \<Rightarrow> jsstring option \<times> world" where
  "insert_polls e uid q os w =
     (let w1 = emit (InsertPoll uid q os) w;
          row = \<lparr>p_id = db_new_id e, p_user_id = uid, p_question = q, p_options = os,
                 p_created_at = db_now e\<rparr>
      in case db_error e of
           Some m \<Rightarrow> (Some m, w1)
         | None \<Rightarrow> (None, w1\<lparr>polls := polls w1 @ [row]\<rparr>))"

definition update_polls ::
  "env \<Rightarrow> jsstring \<Rightarrow> jsstring list \<Rightarrow> cond list \<Rightarrow> world \<Rightarrow> jsstring option \<times> world" where
  "update_polls e q os cs w =
     (let w1 = emit (UpdatePolls q os cs) w
      in case db_error e of
           Some m \<Rightarrow> (Some m, w1)
         | None \<Rightarrow>
             (None, w1\<lparr>polls :=
                map (\<lambda>p. if matching cs p then p\<lparr>p_question := q, p_options := os\<rparr> else p)
                  (polls w1)\<rparr>))"

definition delete_polls :: "env \<Rightarrow> cond list \<Rightarrow> world \<Rightarrow> jsstring option \<times> world" where
  "delete_polls e cs w =
     (let w1 = emit (DeletePolls cs) w
      in case db_error e of
           Some m \<Rightarrow> (Some m, w1)
         | None \<Rightarrow> (None, w1\<lparr>polls := filter (\<lambda>p. \<not> matching cs p) (polls w1)\<rparr>))"

fun ordered :: "order_by option \<Rightarrow> poll list \<Rightarrow> poll list" where
  "ordered None rows = rows"
| "ordered (Some (Order Created_at True)) rows = sort_key p_created_at rows"
| "ordered (Some (Order Created_at False)) rows = rev (sort_key p_created_at rows)"

definition select_polls ::
  "env \<Rightarrow> cond list \<Rightarrow> order_by option \<Rightarrow> world \<Rightarrow>
     (poll list \<times> jsstring option) \<times> world" where
  "select_polls e cs ord w =
     (let w1 = emit (SelectPolls cs ord) w
      in case db_error e of
           Some m \<Rightarrow> (([], Some m), w1)
         | None \<Rightarrow> ((ordered ord (filter (matching cs) (polls w1)), None), w1))"

definition select_single_polls ::
  "env \<Rightarrow> cond list \<Rightarrow> world \<Rightarrow> (poll option \<times> jsstring option) \<times> world" where
  "select_single_polls e cs w =
     (let w1 = emit (SelectSingle cs) w
      in case db_error e of
           Some m \<Rightarrow> ((None, Some m), w1)
         | None \<Rightarrow>
             (case filter (matching cs) (polls w1) of
                [row] \<Rightarrow> ((Some row, None), w1)
              | rows \<Rightarrow> ((None, Some (db_single_error e)), w1)))"

definition insert_votes :: "env \<Rightarrow> vote \<Rightarrow> world \<Rightarrow> jsstring option \<times> world" where
  "insert_votes e v w =
     (let w1 = emit (InsertVote v) w
      in case db_error e of
           Some m \<Rightarrow> (Some m, w1)
         | None \<Rightarrow> (None, w1\<lparr>votes := votes w1 @ [v]\<rparr>))"

section \<open>Request handlers\<close>

text \<open>
  A handler takes what the collaborators answer and the world it starts in, and gives
  the \<open>error\<close> field of its response object, \<open>None\<close> for \<open>null\<close>, with the
  world it leaves. An error object of a collaborator is its message. \<open>createClient\<close>
  makes no call. \<open>Thrown\<close> stands for the TypeError of \<open>sanitizeString\<close> calling
  \<open>trim\<close> on \<open>null\<close>; validation has returned before that for a missing question.
\<close>

datatype 'a outcome = Returned 'a | Thrown

definition rawQuestion :: "formData \<Rightarrow> jsstring option" where
  "rawQuestion formData = formData_get formData (js ''question'')"

text \<open>\<open>filter(Boolean)\<close> drops the empty strings.\<close>

definition rawOptions :: "formData \<Rightarrow> jsstring list" where
  "rawOptions formData = filter (\<lambda>v. v \<noteq> []) (formData_getAll formData (js ''options''))"

definition createPoll :: "env \<Rightarrow> formData \<Rightarrow> world \<Rightarrow> jsstring option outcome \<times> world" where
  "createPoll e formData w =
     (let validationErrors = validatePollInput (rawQuestion formData) (rawOptions formData)
      in if length validationErrors > 0 then
           (Returned (Some (join (js '', '') validationErrors)), w)
         else
           (case rawQuestion formData of
              None \<Rightarrow> (Thrown, w)
            | Some rq \<Rightarrow>
                let question = sanitizeString rq;
                    options = map sanitizeString (rawOptions formData);
                    ((user, userError), w1) = auth_getUser e w
                in case userError of
                     Some m \<Rightarrow> (Returned (Some m), w1)
                   | None \<Rightarrow>
                       (case user of
                          None \<Rightarrow>
                            (Returned (Some (js ''You must be logged in to create a poll.'')), w1)
                        | Some u \<Rightarrow>
                            let (error, w2) = insert_polls e (u_id u) question options w1
                            in case error of
                                 Some m \<Rightarrow> (Returned (Some m), w2)
                               | None \<Rightarrow> (Returned None, revalidatePath (js ''/polls'') w2))))"

definition adminDeletePoll :: "env \<Rightarrow> jsstring \<Rightarrow> world \<Rightarrow> jsstring option \<times> world" where
  "adminDeletePoll e ident w =
     (let ((user, userError), w1) = auth_getUser e w
      in case userError of
           Some m \<Rightarrow> (Some m, w1)
         | None \<Rightarrow>
             (case user of
                None \<Rightarrow> (Some (js ''You must be logged in to delete a poll.''), w1)
              | Some u \<Rightarrow>
                  let isAdmin = (u_role u = Some (js ''admin''))
                  in if \<not> isAdmin then
                       (Some (js ''Admin privileges required to delete any poll.''), w1)
                     else
                       let (error, w2) = delete_polls e [Eq Id ident] w1
                       in case error of
                            Some m \<Rightarrow> (Some m, w2)
                          | None \<Rightarrow> (None, revalidatePath (js ''/polls'') w2)))"

definition getUserPolls :: "env \<Rightarrow> world \<Rightarrow> (poll list \<times> jsstring option) \<times> world" where
  "getUserPolls e w =
     (let ((user, userError), w1) = auth_getUser e w
      in case user of
           None \<Rightarrow> (([], Some (js ''Not authenticated'')), w1)
         | Some u \<Rightarrow>
             let ((data, error), w2) =
                   select_polls e [Eq User_id (u_id u)] (Some (Order Created_at False)) w1
             in case error of
                  Some m \<Rightarrow> (([], Some m), w2)
                | None \<Rightarrow> ((data, None), w2))"

definition getPollById ::
  "env \<Rightarrow> jsstring \<Rightarrow> world \<Rightarrow> (poll option \<times> jsstring option) \<times> world" where
  "getPollById e ident w =
     (let ((data, error), w1) = select_single_polls e [Eq Id ident] w
      in case error of
           Some m \<Rightarrow> ((None, Some m), w1)
         | None \<Rightarrow> ((data, None), w1))"

definition submitVote :: "env \<Rightarrow> jsstring \<Rightarrow> int \<Rightarrow> world \<Rightarrow> jsstring option \<times> world" where
  "submitVote e pollId optionIndex w =
     (let ((user, userError), w1) = auth_getUser e w;
          (error, w2) =
            insert_votes e
              \<lparr>v_poll_id = pollId, v_user_id = map_option u_id user,
               v_option_index = optionIndex\<rparr> w1
      in case error of
           Some m \<Rightarrow> (Some m, w2)
         | None \<Rightarrow> (None, w2))"

definition deletePoll :: "env \<Rightarrow> jsstring \<Rightarrow> world \<Rightarrow> jsstring option \<times> world" where
  "deletePoll e ident w =
     (let ((user, userError), w1) = auth_getUser e w
      in case userError of
           Some m \<Rightarrow> (Some m, w1)
         | None \<Rightarrow>
             (case user of
                None \<Rightarrow> (Some (js ''You must be logged in to delete a poll.''), w1)
              | Some u \<Rightarrow>
                  let (error, w2) = delete_polls e [Eq Id ident, Eq User_id (u_id u)] w1
                  in case error of
                       Some m \<Rightarrow> (Some m, w2)
                     | None \<Rightarrow> (None, revalidatePath (js ''/polls'') w2)))"

definition updatePoll ::
  "env \<Rightarrow> jsstring \<Rightarrow> formData \<Rightarrow> world \<Rightarrow> jsstring option outcome \<times> world" where
  "updatePoll e pollId formData w =
     (let validationErrors = validatePollInput (rawQuestion formData) (rawOptions formData)
      in if length validationErrors > 0 then
           (Returned (Some (join (js '', '') validationErrors)), w)
         else
           (case rawQuestion formData of
              None \<Rightarrow> (Thrown, w)
            | Some rq \<Rightarrow>
                let question = sanitizeString rq;
                    options = map sanitizeString (rawOptions formData);
                    ((user, userError), w1) = auth_getUser e w
                in case userError of
                     Some m \<Rightarrow> (Returned (Some m), w1)
                   | None \<Rightarrow>
                       (case user of
                          None \<Rightarrow>
                            (Returned (Some (js ''You must be logged in to update a poll.'')), w1)
                        | Some u \<Rightarrow>
                            let (error, w2) =
                                  update_polls e question options
                                    [Eq Id pollId, Eq User_id (u_id u)] w1
                            in case error of
                                 Some m \<Rightarrow> (Returned (Some m), w2)
                               | None \<Rightarrow> (Returned None, w2))))"

section \<open>Notions used in the statements\<close>

text \<open>
  The calls that write to a table, and the stage of a request a call belongs to:
  authentication, the database query, cache invalidation.
\<close>

fun is_write :: "event \<Rightarrow> bool" where
  "is_write (InsertPoll uid q os) = True"
| "is_write (UpdatePolls q os cs) = True"
| "is_write (DeletePolls cs) = True"
| "is_write (InsertVote v) = True"
| "is_write ev = False"

fun stage :: "event \<Rightarrow> nat" where
  "stage GetUser = 0"
| "stage (RevalidatePath path) = 2"
| "stage ev = 1"

text \<open>The calls a handler has added to the trace of the world it started in.\<close>

definition calls :: "world \<Rightarrow> world \<Rightarrow> event list" where
  "calls w w' = drop (length (trace w)) (trace w')"

text \<open>
  A handler run from \<open>w\<close> to \<open>w'\<close> has written nothing: both tables are as they
  were and no writing call was made.
\<close>

definition no_write :: "world \<Rightarrow> world \<Rightarrow> bool" where
  "no_write w w' \<longleftrightarrow>
     polls w' = polls w \<and> votes w' = votes w \<and> list_all (\<lambda>ev. \<not> is_write ev) (calls w w')"

text \<open>
  A string holds no tag when no \<open><\<close> in it has a \<open>>\<close> anywhere behind it.
\<close>

fun no_tag :: "jsstring \<Rightarrow> bool" where
  "no_tag [] = True"
| "no_tag (x # xs) =
     ((x = of_char CHR ''<'' \<longrightarrow> of_char CHR ''>'' \<notin> set xs) \<and> no_tag xs)"

text \<open>A string that is read back as a decimal number, to tell rendered indices apart.\<close>

definition isDigit :: "code_unit \<Rightarrow> bool" where
  "isDigit c \<longleftrightarrow> 48 \<le> c \<and> c \<le> 57"

definition decimal :: "jsstring \<Rightarrow> nat" where
  "decimal s = foldl (\<lambda>acc c. 10 * acc + (unat c - 48)) 0 s"

section \<open>Example data\<close>

definition alice :: user where
  "alice = \<lparr>u_id = js ''alice'', u_role = None\<rparr>"

definition root :: user where
  "root = \<lparr>u_id = js ''root'', u_role = Some (js ''admin'')\<rparr>"

definition bobs_poll :: poll where
  "bobs_poll =
     \<lparr>p_id = js ''p1'', p_user_id = js ''bob'', p_question = js ''Tea or coffee?'',
      p_options = [js ''Tea'', js ''Coffee''], p_created_at = 1\<rparr>"

definition alices_poll :: poll where
  "alices_poll =
     \<lparr>p_id = js ''p2'', p_user_id = js ''alice'', p_question = js ''Cats or dogs?'',
      p_options = [js ''Cats'', js ''Dogs''], p_created_at = 2\<rparr>"

definition alices_later_poll :: poll where
  "alices_later_poll =
     \<lparr>p_id = js ''p3'', p_user_id = js ''alice'', p_question = js ''Red or blue?'',
      p_options = [js ''Red'', js ''Blue''], p_created_at = 3\<rparr>"

definition world0 :: world where
  "world0 = \<lparr>polls = [bobs_poll, alices_poll, alices_later_poll], votes = [], trace = []\<rparr>"

definition session :: "user option \<Rightarrow> jsstring option \<Rightarrow> env" where
  "session u db =
     \<lparr>auth_user = u, auth_error = None, db_error = db, db_new_id = js ''p9'', db_now = 9,
      db_single_error = js ''not exactly one row''\<rparr>"

definition good_form :: formData where
  "good_form =
     [(js ''question'', js ''Up or down?''), (js ''options'', js ''Up''),
      (js ''options'', js ''Down'')]"

definition blank_option_form :: formData where
  "blank_option_form =
     [(js ''question'', js ''Up or down?''), (js ''options'', js ''Up''),
      (js ''options'', [])]"

definition spaces_option_form :: formData where
  "spaces_option_form =
     [(js ''question'', js ''Up or down?''), (js ''options'', js ''Up''),
      (js ''options'', js ''  '')]"


section \<open>The handlers, branch by branch\<close>

lemmas backend_defs = auth_getUser_def emit_def revalidatePath_def insert_polls_def
  update_polls_def delete_polls_def select_polls_def select_single_polls_def insert_votes_def

lemma validatePollInput_None: "validatePollInput None opts \<noteq> []"
  by (simp add: validatePollInput_def validateQuestion_def)

lemma validated_question: "validatePollInput rq ro = [] \<Longrightarrow> \<exists>q. rq = Some q"
  by (cases rq) (simp_all add: validatePollInput_None)

lemma createPoll_invalid:
  "validatePollInput (rawQuestion fd) (rawOptions fd) \<noteq> [] \<Longrightarrow>
   createPoll e fd w =
     (Returned (Some (join (js '', '') (validatePollInput (rawQuestion fd) (rawOptions fd)))), w)"
  by (simp add: createPoll_def Let_def)

lemma updatePoll_invalid:
  "validatePollInput (rawQuestion fd) (rawOptions fd) \<noteq> [] \<Longrightarrow>
   updatePoll e pid fd w =
     (Returned (Some (join (js '', '') (validatePollInput (rawQuestion fd) (rawOptions fd)))), w)"
  by (simp add: updatePoll_def Let_def)

lemma createPoll_valid:
  "validatePollInput (rawQuestion fd) (rawOptions fd) = [] \<Longrightarrow> rawQuestion fd = Some rq \<Longrightarrow>
   createPoll e fd w =
     (case auth_error e of
        Some m \<Rightarrow> (Returned (Some m), emit GetUser w)
      | None \<Rightarrow>
          (case auth_user e of
             None \<Rightarrow>
               (Returned (Some (js ''You must be logged in to create a poll.'')), emit GetUser w)
           | Some u \<Rightarrow>
               (case db_error e of
                  Some m \<Rightarrow>
                    (Returned (Some m),
                     emit (InsertPoll (u_id u) (sanitizeString rq)
                             (map sanitizeString (rawOptions fd)))
                       (emit GetUser w))
                | None \<Rightarrow>
                    (Returned None,
                     w\<lparr>polls := polls w @
                          [\<lparr>p_id = db_new_id e, p_user_id = u_id u,
                            p_question = sanitizeString rq,
                            p_options = map sanitizeString (rawOptions fd),
                            p_created_at = db_now e\<rparr>],
                       trace := trace w @
                          [GetUser,
                           InsertPoll (u_id u) (sanitizeString rq)
                             (map sanitizeString (rawOptions fd)),
                           RevalidatePath (js ''/polls'')]\<rparr>))))"
  by (simp add: createPoll_def Let_def backend_defs split: option.splits)

lemma updatePoll_valid:
  "validatePollInput (rawQuestion fd) (rawOptions fd) = [] \<Longrightarrow> rawQuestion fd = Some rq \<Longrightarrow>
   updatePoll e pid fd w =
     (case auth_error e of
        Some m \<Rightarrow> (Returned (Some m), emit GetUser w)
      | None \<Rightarrow>
          (case auth_user e of
             None \<Rightarrow>
               (Returned (Some (js ''You must be logged in to update a poll.'')), emit GetUser w)
           | Some u \<Rightarrow>
               (case db_error e of
                  Some m \<Rightarrow>
                    (Returned (Some m),
                     emit (UpdatePolls (sanitizeString rq) (map sanitizeString (rawOptions fd))
                             [Eq Id pid, Eq User_id (u_id u)])
                       (emit GetUser w))
                | None \<Rightarrow>
                    (Returned None,
                     w\<lparr>polls :=
                          map (\<lambda>p. if p_id p = pid \<and> p_user_id p = u_id u
                                   then p\<lparr>p_question := sanitizeString rq,
                                          p_options := map sanitizeString (rawOptions fd)\<rparr>
                                   else p) (polls w),
                       trace := trace w @
                          [GetUser,
                           UpdatePolls (sanitizeString rq) (map sanitizeString (rawOptions fd))
                             [Eq Id pid, Eq User_id (u_id u)]]\<rparr>))))"
  by (simp add: updatePoll_def Let_def backend_defs matching_def split: option.splits)

lemma deletePoll_eq:
  "deletePoll e ident w =
     (case auth_error e of
        Some m \<Rightarrow> (Some m, emit GetUser w)
      | None \<Rightarrow>
          (case auth_user e of
             None \<Rightarrow> (Some (js ''You must be logged in to delete a poll.''), emit GetUser w)
           | Some u \<Rightarrow>
               (case db_error e of
                  Some m \<Rightarrow>
                    (Some m,
                     emit (DeletePolls [Eq Id ident, Eq User_id (u_id u)]) (emit GetUser w))
                | None \<Rightarrow>
                    (None,
                     w\<lparr>polls :=
                          filter (\<lambda>p. \<not> (p_id p = ident \<and> p_user_id p = u_id u)) (polls w),
                       trace := trace w @
                          [GetUser, DeletePolls [Eq Id ident, Eq User_id (u_id u)],
                           RevalidatePath (js ''/polls'')]\<rparr>))))"
  by (simp add: deletePoll_def Let_def backend_defs matching_def split: option.splits)

lemma adminDeletePoll_eq:
  "adminDeletePoll e ident w =
     (case auth_error e of
        Some m \<Rightarrow> (Some m, emit GetUser w)
      | None \<Rightarrow>
          (case auth_user e of
             None \<Rightarrow> (Some (js ''You must be logged in to delete a poll.''), emit GetUser w)
           | Some u \<Rightarrow>
               if u_role u \<noteq> Some (js ''admin'') then
                 (Some (js ''Admin privileges required to delete any poll.''), emit GetUser w)
               else
                 (case db_error e of
                    Some m \<Rightarrow> (Some m, emit (DeletePolls [Eq Id ident]) (emit GetUser w))
                  | None \<Rightarrow>
                      (None,
                       w\<lparr>polls := filter (\<lambda>p. p_id p \<noteq> ident) (polls w),
                         trace := trace w @
                            [GetUser, DeletePolls [Eq Id ident],
                             RevalidatePath (js ''/polls'')]\<rparr>))))"
  by (simp add: adminDeletePoll_def Let_def backend_defs matching_def split: option.splits)

lemma submitVote_eq:
  "submitVote e pollId optionIndex w =
     (db_error e,
      w\<lparr>votes :=
           (case db_error e of
              None \<Rightarrow> votes w @
                [\<lparr>v_poll_id = pollId, v_user_id = map_option u_id (auth_user e),
                  v_option_index = optionIndex\<rparr>]
            | Some m \<Rightarrow> votes w),
        trace := trace w @
          [GetUser,
           InsertVote \<lparr>v_poll_id = pollId, v_user_id = map_option u_id (auth_user e),
                       v_option_index = optionIndex\<rparr>]\<rparr>)"
  by (simp add: submitVote_def Let_def backend_defs split: option.splits)

lemma matching_user_id: "matching [Eq User_id v] = (\<lambda>p. p_user_id p = v)"
  by (simp add: fun_eq_iff matching_def)

lemma getUserPolls_eq:
  "getUserPolls e w =
     (case auth_user e of
        None \<Rightarrow> (([], Some (js ''Not authenticated'')), emit GetUser w)
      | Some u \<Rightarrow>
          (case db_error e of
             Some m \<Rightarrow>
               (([], Some m),
                emit (SelectPolls [Eq User_id (u_id u)] (Some (Order Created_at False)))
                  (emit GetUser w))
           | None \<Rightarrow>
               ((rev (sort_key p_created_at (filter (\<lambda>p. p_user_id p = u_id u) (polls w))),
                 None),
                emit (SelectPolls [Eq User_id (u_id u)] (Some (Order Created_at False)))
                  (emit GetUser w))))"
  by (simp add: getUserPolls_def Let_def backend_defs matching_user_id split: option.splits)

lemma getPollById_calls: "calls w (snd (getPollById e ident w)) = [SelectSingle [Eq Id ident]]"
  by (simp add: getPollById_def select_single_polls_def Let_def calls_def emit_def
      split: option.splits list.splits)

lemma calls_self [simp]: "calls w w = []"
  by (simp add: calls_def)

lemma calls_emit1 [simp]: "calls w (emit a w) = [a]"
  by (simp add: calls_def emit_def)

lemma calls_emit2 [simp]: "calls w (emit b (emit a w)) = [a, b]"
  by (simp add: calls_def emit_def)

lemma calls_update_polls [simp]: "calls w (w\<lparr>polls := ps, trace := trace w @ evs\<rparr>) = evs"
  by (simp add: calls_def)

lemma calls_update_votes [simp]: "calls w (w\<lparr>votes := vs, trace := trace w @ evs\<rparr>) = evs"
  by (simp add: calls_def)

lemma polls_emit [simp]: "polls (emit a w) = polls w"
  by (simp add: emit_def)

lemma votes_emit [simp]: "votes (emit a w) = votes w"
  by (simp add: emit_def)

lemma trace_emit [simp]: "trace (emit a w) = trace w @ [a]"
  by (simp add: emit_def)

lemma filter_others_update:
  "filter (\<lambda>p. p_user_id p \<noteq> uid)
     (map (\<lambda>p. if p_id p = ident \<and> p_user_id p = uid
              then p\<lparr>p_question := q, p_options := os\<rparr> else p) ps) =
   filter (\<lambda>p. p_user_id p \<noteq> uid) ps"
  by (induction ps) auto

lemma update_none:
  "\<forall>p\<in>set ps. p_id p = ident \<longrightarrow> p_user_id p \<noteq> uid \<Longrightarrow>
   map (\<lambda>p. if p_id p = ident \<and> p_user_id p = uid
            then p\<lparr>p_question := q, p_options := os\<rparr> else p) ps = ps"
  by (induction ps) auto

lemma newest_first:
  "sorted_wrt (\<lambda>a b. p_created_at a \<ge> p_created_at b) (rev (sort_key p_created_at ps))"
proof -
  have "sorted (map p_created_at (sort_key p_created_at ps))"
    by (rule sorted_sort_key)
  then have "sorted_wrt (\<lambda>a b. p_created_at a \<le> p_created_at b) (sort_key p_created_at ps)"
    by (simp add: sorted_wrt_map)
  then show ?thesis
    by (simp add: sorted_wrt_rev)
qed

section \<open>Validation accepts exactly the well-formed input\<close>

lemma trim_Nil [simp]: "trim [] = []"
  by (simp add: trim_def)

lemma validateOptions_Nil_iff:
  "validateOptions i opts = [] \<longleftrightarrow>
     (\<forall>opt\<in>set opts. trim opt \<noteq> [] \<and> length (trim opt) \<le> 200)"
  by (induction opts arbitrary: i) auto

lemma validateQuestion_Nil_iff:
  "validateQuestion question = [] \<longleftrightarrow>
     (\<exists>q. question = Some q \<and> trim q \<noteq> [] \<and> length (trim q) \<le> 500)"
  by (cases question) (auto simp add: validateQuestion_def)

lemma validateCount_Nil_iff:
  "validateCount opts = [] \<longleftrightarrow> 2 \<le> length opts \<and> length opts \<le> 10"
  by (auto simp add: validateCount_def)

lemma good_form_valid: "validatePollInput (rawQuestion good_form) (rawOptions good_form) = []"
  by code_simp

lemma good_form_question: "rawQuestion good_form = Some (js ''Up or down?'')"
  by code_simp

section \<open>Ownership and roles\<close>

text \<open>
  Claim C1. For a caller the authentication service has identified, \<open>deletePoll\<close> and
  \<open>updatePoll\<close> leave every poll of another user as it is: the rows whose \<open>user_id\<close>
  differs from the caller's identifier are the same before and after, in the same order.
  The only delete or update either handler sends carries the compound filter on the poll
  identifier and the caller's \<open>user_id\<close>, so that when the caller owns no poll with the
  given identifier the table is unchanged: zero rows are affected.
\<close>

theorem non_owner_mutation_affects_no_row:
  assumes "auth_user e = Some u"
  shows "filter (\<lambda>p. p_user_id p \<noteq> u_id u) (polls (snd (deletePoll e ident w))) =
           filter (\<lambda>p. p_user_id p \<noteq> u_id u) (polls w)
       \<and> filter (\<lambda>p. p_user_id p \<noteq> u_id u) (polls (snd (updatePoll e ident fd w))) =
           filter (\<lambda>p. p_user_id p \<noteq> u_id u) (polls w)
       \<and> (\<forall>cs. DeletePolls cs \<in> set (calls w (snd (deletePoll e ident w))) \<longrightarrow>
             cs = [Eq Id ident, Eq User_id (u_id u)])
       \<and> (\<forall>q os cs. UpdatePolls q os cs \<in> set (calls w (snd (updatePoll e ident fd w))) \<longrightarrow>
             cs = [Eq Id ident, Eq User_id (u_id u)])
       \<and> ((\<forall>p\<in>set (polls w). p_id p = ident \<longrightarrow> p_user_id p \<noteq> u_id u) \<longrightarrow>
             polls (snd (deletePoll e ident w)) = polls w
           \<and> polls (snd (updatePoll e ident fd w)) = polls w)"
proof -
  have del: "filter (\<lambda>p. p_user_id p \<noteq> u_id u) (polls (snd (deletePoll e ident w))) =
           filter (\<lambda>p. p_user_id p \<noteq> u_id u) (polls w)"
    using assms by (auto simp add: deletePoll_eq split: option.splits intro!: filter_cong)
  have del_cs: "\<forall>cs. DeletePolls cs \<in> set (calls w (snd (deletePoll e ident w))) \<longrightarrow>
             cs = [Eq Id ident, Eq User_id (u_id u)]"
    using assms by (simp add: deletePoll_eq split: option.splits)
  have del0: "(\<forall>p\<in>set (polls w). p_id p = ident \<longrightarrow> p_user_id p \<noteq> u_id u) \<longrightarrow>
             polls (snd (deletePoll e ident w)) = polls w"
    using assms by (auto simp add: deletePoll_eq filter_id_conv split: option.splits)
  have upd: "filter (\<lambda>p. p_user_id p \<noteq> u_id u) (polls (snd (updatePoll e ident fd w))) =
           filter (\<lambda>p. p_user_id p \<noteq> u_id u) (polls w)
      \<and> (\<forall>q os cs. UpdatePolls q os cs \<in> set (calls w (snd (updatePoll e ident fd w))) \<longrightarrow>
             cs = [Eq Id ident, Eq User_id (u_id u)])
      \<and> ((\<forall>p\<in>set (polls w). p_id p = ident \<longrightarrow> p_user_id p \<noteq> u_id u) \<longrightarrow>
            polls (snd (updatePoll e ident fd w)) = polls w)"
  proof (cases "validatePollInput (rawQuestion fd) (rawOptions fd) = []")
    case False
    then show ?thesis by (simp add: updatePoll_invalid)
  next
    case True
    then obtain rq where rq: "rawQuestion fd = Some rq"
      using validated_question by blast
    show ?thesis
      using assms
      by (auto simp add: updatePoll_valid [OF True rq] filter_others_update update_none
          split: option.splits simp del: filter_filter)
  qed
  from del del_cs del0 upd show ?thesis by blast
qed

text \<open>
  Alice tries to delete and to update Bob's poll \<open>p1\<close>: the table stays as it was.
\<close>

theorem non_owner_mutation_affects_no_row_witness:
  "auth_user (session (Some alice) None) = Some alice
   \<and> polls (snd (deletePoll (session (Some alice) None) (js ''p1'') world0)) = polls world0
   \<and> polls (snd (updatePoll (session (Some alice) None) (js ''p1'') good_form world0)) =
       polls world0"
proof -
  have h: "auth_user (session (Some alice) None) = Some alice"
    by (simp add: session_def)
  have other: "\<forall>p\<in>set (polls world0). p_id p = js ''p1'' \<longrightarrow> p_user_id p \<noteq> u_id alice"
    by (simp add: world0_def bobs_poll_def alices_poll_def alices_later_poll_def alice_def
        js_def)
  from non_owner_mutation_affects_no_row
         [where e = "session (Some alice) None" and u = alice and ident = "js ''p1''"
            and w = world0 and fd = good_form, OF h] other h
  show ?thesis by blast
qed

text \<open>
  Claim C2. For a caller the authentication service has identified without error,
  \<open>adminDeletePoll\<close> returns the authorization error and deletes nothing when the role
  is not exactly \<open>admin\<close>: the only call made is the one to the authentication service.
  When the role is \<open>admin\<close>, the delete is sent with the filter on the identifier alone,
  the handler returns what the database answers, and on its success exactly the polls
  with that identifier are gone, whoever owns them.
\<close>

theorem adminDeletePoll_requires_admin_role:
  assumes "auth_error e = None" and "auth_user e = Some u"
  shows "(u_role u \<noteq> Some (js ''admin'') \<longrightarrow>
            fst (adminDeletePoll e ident w) =
              Some (js ''Admin privileges required to delete any poll.'')
          \<and> polls (snd (adminDeletePoll e ident w)) = polls w
          \<and> calls w (snd (adminDeletePoll e ident w)) = [GetUser])
       \<and> (u_role u = Some (js ''admin'') \<longrightarrow>
            fst (adminDeletePoll e ident w) = db_error e
          \<and> take 2 (calls w (snd (adminDeletePoll e ident w))) =
              [GetUser, DeletePolls [Eq Id ident]]
          \<and> (db_error e = None \<longrightarrow>
                polls (snd (adminDeletePoll e ident w)) =
                  filter (\<lambda>p. p_id p \<noteq> ident) (polls w)))"
  using assms by (simp add: adminDeletePoll_eq split: option.splits)

text \<open>
  Alice, who has no role, is refused; the administrator deletes Bob's poll \<open>p1\<close>.
\<close>

theorem adminDeletePoll_requires_admin_role_witness:
  "fst (adminDeletePoll (session (Some alice) None) (js ''p1'') world0) =
     Some (js ''Admin privileges required to delete any poll.'')
   \<and> polls (snd (adminDeletePoll (session (Some alice) None) (js ''p1'') world0)) =
       polls world0
   \<and> polls (snd (adminDeletePoll (session (Some root) None) (js ''p1'') world0)) =
       [alices_poll, alices_later_poll]"
proof -
  have a1: "auth_error (session (Some alice) None) = None"
    and a2: "auth_user (session (Some alice) None) = Some alice"
    and a3: "u_role alice \<noteq> Some (js ''admin'')"
    by (simp_all add: session_def alice_def)
  have r1: "auth_error (session (Some root) None) = None"
    and r2: "auth_user (session (Some root) None) = Some root"
    and r3: "u_role root = Some (js ''admin'')"
    and r4: "db_error (session (Some root) None) = None"
    by (simp_all add: session_def root_def)
  have rows: "filter (\<lambda>p. p_id p \<noteq> js ''p1'') (polls world0) = [alices_poll, alices_later_poll]"
    by (simp add: world0_def bobs_poll_def alices_poll_def alices_later_poll_def js_def)
  from adminDeletePoll_requires_admin_role [OF a1 a2, of "js ''p1''" world0] a3
       adminDeletePoll_requires_admin_role [OF r1 r2, of "js ''p1''" world0] r3 r4 rows
  show ?thesis by simp
qed

section \<open>Unauthenticated calls\<close>

text \<open>
  Claim C5. When the authentication service returns no user, \<open>createPoll\<close>,
  \<open>updatePoll\<close>, \<open>deletePoll\<close> and \<open>adminDeletePoll\<close> each return an error that
  is not \<open>null\<close> and write nothing: the tables are unchanged and no writing call is made.
  \<open>submitVote\<close> goes on: it sends the insert of a vote whose \<open>user_id\<close> is
  \<open>null\<close>, and when the database accepts it the vote is in the table and the returned
  error is \<open>null\<close>.
\<close>

theorem unauthenticated_calls_fail_closed:
  assumes "auth_user e = None"
  shows "(\<exists>m. fst (createPoll e fd w) = Returned (Some m))
       \<and> no_write w (snd (createPoll e fd w))
       \<and> (\<exists>m. fst (updatePoll e ident fd w) = Returned (Some m))
       \<and> no_write w (snd (updatePoll e ident fd w))
       \<and> (\<exists>m. fst (deletePoll e ident w) = Some m)
       \<and> no_write w (snd (deletePoll e ident w))
       \<and> (\<exists>m. fst (adminDeletePoll e ident w) = Some m)
       \<and> no_write w (snd (adminDeletePoll e ident w))
       \<and> calls w (snd (submitVote e ident optionIndex w)) =
            [GetUser,
             InsertVote \<lparr>v_poll_id = ident, v_user_id = None, v_option_index = optionIndex\<rparr>]
       \<and> (db_error e = None \<longrightarrow>
            fst (submitVote e ident optionIndex w) = None
          \<and> votes (snd (submitVote e ident optionIndex w)) =
              votes w @
                [\<lparr>v_poll_id = ident, v_user_id = None, v_option_index = optionIndex\<rparr>])"
proof -
  have create: "(\<exists>m. fst (createPoll e fd w) = Returned (Some m))
      \<and> no_write w (snd (createPoll e fd w))"
  proof (cases "validatePollInput (rawQuestion fd) (rawOptions fd) = []")
    case False
    then show ?thesis by (simp add: createPoll_invalid no_write_def)
  next
    case True
    then obtain rq where rq: "rawQuestion fd = Some rq"
      using validated_question by blast
    show ?thesis
      using assms by (simp add: createPoll_valid [OF True rq] no_write_def split: option.splits)
  qed
  have update: "(\<exists>m. fst (updatePoll e ident fd w) = Returned (Some m))
      \<and> no_write w (snd (updatePoll e ident fd w))"
  proof (cases "validatePollInput (rawQuestion fd) (rawOptions fd) = []")
    case False
    then show ?thesis by (simp add: updatePoll_invalid no_write_def)
  next
    case True
    then obtain rq where rq: "rawQuestion fd = Some rq"
      using validated_question by blast
    show ?thesis
      using assms by (simp add: updatePoll_valid [OF True rq] no_write_def split: option.splits)
  qed
  have delete: "(\<exists>m. fst (deletePoll e ident w) = Some m)
      \<and> no_write w (snd (deletePoll e ident w))"
    using assms by (simp add: deletePoll_eq no_write_def split: option.splits)
  have admin: "(\<exists>m. fst (adminDeletePoll e ident w) = Some m)
      \<and> no_write w (snd (adminDeletePoll e ident w))"
    using assms by (simp add: adminDeletePoll_eq no_write_def split: option.splits)
  have vote: "calls w (snd (submitVote e ident optionIndex w)) =
            [GetUser,
             InsertVote \<lparr>v_poll_id = ident, v_user_id = None, v_option_index = optionIndex\<rparr>]
       \<and> (db_error e = None \<longrightarrow>
            fst (submitVote e ident optionIndex w) = None
          \<and> votes (snd (submitVote e ident optionIndex w)) =
              votes w @
                [\<lparr>v_poll_id = ident, v_user_id = None, v_option_index = optionIndex\<rparr>])"
    using assms by (simp add: submitVote_eq)
  from create update delete admin vote show ?thesis by blast
qed

text \<open>
  Without a session, a well-formed \<open>createPoll\<close> and a \<open>deletePoll\<close> write nothing,
  and a vote on \<open>p1\<close> is stored without a user.
\<close>

theorem unauthenticated_calls_fail_closed_witness:
  "auth_user (session None None) = None
   \<and> no_write world0 (snd (createPoll (session None None) good_form world0))
   \<and> no_write world0 (snd (deletePoll (session None None) (js ''p1'') world0))
   \<and> votes (snd (submitVote (session None None) (js ''p1'') 0 world0)) =
       [\<lparr>v_poll_id = js ''p1'', v_user_id = None, v_option_index = 0\<rparr>]"
proof -
  have h: "auth_user (session None None) = None"
    and d: "db_error (session None None) = None"
    and v: "votes world0 = []"
    by (simp_all add: session_def world0_def)
  from unauthenticated_calls_fail_closed
         [where e = "session None None" and fd = good_form and w = world0
            and ident = "js ''p1''" and optionIndex = 0, OF h] h d v
  show ?thesis by simp
qed

section \<open>Voting\<close>

text \<open>
  Claim C6. \<open>submitVote\<close> never looks at the polls: for every poll identifier and every
  integer index, negative and out of range included, it sends the insert of a vote row
  whose \<open>option_index\<close> is the given index, and it returns what the database answers,
  \<open>null\<close> unless the database reports an error. When the database accepts the row,
  it is in the table.
\<close>

theorem submitVote_no_bounds_check:
  "fst (submitVote e pollId optionIndex w) = db_error e
   \<and> calls w (snd (submitVote e pollId optionIndex w)) =
       [GetUser,
        InsertVote \<lparr>v_poll_id = pollId, v_user_id = map_option u_id (auth_user e),
                    v_option_index = optionIndex\<rparr>]
   \<and> votes (snd (submitVote e pollId optionIndex w)) =
       (case db_error e of
          None \<Rightarrow> votes w @
            [\<lparr>v_poll_id = pollId, v_user_id = map_option u_id (auth_user e),
              v_option_index = optionIndex\<rparr>]
        | Some m \<Rightarrow> votes w)
   \<and> polls (snd (submitVote e pollId optionIndex w)) = polls w"
  by (simp add: submitVote_eq)

text \<open>
  Bob's poll \<open>p1\<close> has two options; Alice's votes for option \<open>-1\<close> and for option
  \<open>7\<close> are stored, and so is a vote on a poll that does not exist.
\<close>

theorem submitVote_no_bounds_check_witness:
  "length (p_options bobs_poll) = 2
   \<and> fst (submitVote (session (Some alice) None) (js ''p1'') (- 1) world0) = None
   \<and> votes (snd (submitVote (session (Some alice) None) (js ''p1'') (- 1) world0)) =
       [\<lparr>v_poll_id = js ''p1'', v_user_id = Some (js ''alice''), v_option_index = - 1\<rparr>]
   \<and> votes (snd (submitVote (session (Some alice) None) (js ''p1'') 7 world0)) =
       [\<lparr>v_poll_id = js ''p1'', v_user_id = Some (js ''alice''), v_option_index = 7\<rparr>]
   \<and> votes (snd (submitVote (session (Some alice) None) (js ''nowhere'') 0 world0)) =
       [\<lparr>v_poll_id = js ''nowhere'', v_user_id = Some (js ''alice''), v_option_index = 0\<rparr>]"
  using submitVote_no_bounds_check [of "session (Some alice) None" "js ''p1''" "- 1" world0]
    submitVote_no_bounds_check [of "session (Some alice) None" "js ''p1''" 7 world0]
    submitVote_no_bounds_check [of "session (Some alice) None" "js ''nowhere''" 0 world0]
  by (simp add: session_def world0_def alice_def bobs_poll_def)

section \<open>Reading the caller's polls\<close>

text \<open>
  The order of the rows of a select is the one the handler asks for: Alice's polls come
  oldest first when the select is ascending and newest first when it is descending.
\<close>

lemma select_polls_order_example:
  "fst (fst (select_polls (session (Some alice) None) [Eq User_id (js ''alice'')]
       (Some (Order Created_at True)) world0)) = [alices_poll, alices_later_poll]
   \<and> fst (fst (select_polls (session (Some alice) None) [Eq User_id (js ''alice'')]
       (Some (Order Created_at False)) world0)) = [alices_later_poll, alices_poll]
   \<and> fst (fst (select_polls (session (Some alice) None) [Eq User_id (js ''alice'')]
       None world0)) = [alices_poll, alices_later_poll]"
  by (simp add: select_polls_def Let_def session_def world0_def matching_user_id emit_def
      bobs_poll_def alices_poll_def alices_later_poll_def js_def)

text \<open>
  Claim C7, as stated, fails when the database reports an error: Alice owns two polls,
  and \<open>getUserPolls\<close> returns none of them.
\<close>

theorem getUserPolls_backend_error_counterexample:
  "auth_user (session (Some alice) (Some (js ''connection lost''))) = Some alice
   \<and> alices_poll \<in> set (polls world0)
   \<and> p_user_id alices_poll = u_id alice
   \<and> fst (getUserPolls (session (Some alice) (Some (js ''connection lost''))) world0) =
       ([], Some (js ''connection lost''))
   \<and> alices_poll \<notin> set (fst (fst (getUserPolls (session (Some alice)
        (Some (js ''connection lost''))) world0)))"
  by (simp add: getUserPolls_eq session_def world0_def alice_def alices_poll_def)

text \<open>
  Claim C7, amended. For a caller the authentication service has identified,
  \<open>getUserPolls\<close> sends one select, filtered by \<open>user_id\<close> equal to the caller's
  identifier and ordered by \<open>created_at\<close> descending. When the database reports no
  error it returns exactly the polls whose \<open>user_id\<close> is the caller's identifier, each
  as often as it is in the table, ordered by creation timestamp descending, with a
  \<open>null\<close> error; when the database reports an error it returns the empty list with the
  message of the database. Without a user it returns the empty list with the error
  \<open>Not authenticated\<close>.
\<close>

theorem getUserPolls_own_polls_newest_first:
  "(auth_user e = None \<longrightarrow> fst (getUserPolls e w) = ([], Some (js ''Not authenticated'')))
   \<and> (\<forall>u. auth_user e = Some u \<longrightarrow>
        calls w (snd (getUserPolls e w)) =
          [GetUser, SelectPolls [Eq User_id (u_id u)] (Some (Order Created_at False))]
      \<and> (db_error e = None \<longrightarrow>
            snd (fst (getUserPolls e w)) = None
          \<and> mset (fst (fst (getUserPolls e w))) =
              mset (filter (\<lambda>p. p_user_id p = u_id u) (polls w))
          \<and> sorted_wrt (\<lambda>a b. p_created_at a \<ge> p_created_at b)
              (fst (fst (getUserPolls e w))))
      \<and> (\<forall>m. db_error e = Some m \<longrightarrow> fst (getUserPolls e w) = ([], Some m)))"
  by (simp add: getUserPolls_eq newest_first split: option.splits)

text \<open>
  Alice gets her two polls and not Bob's, the later one first, though the table holds
  the earlier one first; without a session and with a failing database the list is
  empty.
\<close>

theorem getUserPolls_own_polls_newest_first_witness:
  "mset (fst (fst (getUserPolls (session (Some alice) None) world0))) =
     mset [alices_poll, alices_later_poll]
   \<and> sorted_wrt (\<lambda>a b. p_created_at a \<ge> p_created_at b)
       (fst (fst (getUserPolls (session (Some alice) None) world0)))
   \<and> calls world0 (snd (getUserPolls (session (Some alice) None) world0)) =
       [GetUser, SelectPolls [Eq User_id (u_id alice)] (Some (Order Created_at False))]
   \<and> fst (getUserPolls (session None None) world0) = ([], Some (js ''Not authenticated''))
   \<and> fst (getUserPolls (session (Some alice) (Some (js ''connection lost''))) world0) =
       ([], Some (js ''connection lost''))"
proof -
  have a: "auth_user (session (Some alice) None) = Some alice"
    and d: "db_error (session (Some alice) None) = None"
    and n: "auth_user (session None None) = None"
    and a': "auth_user (session (Some alice) (Some (js ''connection lost''))) = Some alice"
    and d': "db_error (session (Some alice) (Some (js ''connection lost''))) =
        Some (js ''connection lost'')"
    by (simp_all add: session_def)
  have own: "filter (\<lambda>p. p_user_id p = u_id alice) (polls world0) =
      [alices_poll, alices_later_poll]"
    by (simp add: world0_def bobs_poll_def alices_poll_def alices_later_poll_def alice_def
        js_def)
  from getUserPolls_own_polls_newest_first [of "session (Some alice) None" world0] a d own
       getUserPolls_own_polls_newest_first [of "session None None" world0] n
       getUserPolls_own_polls_newest_first
         [of "session (Some alice) (Some (js ''connection lost''))" world0] a' d'
  show ?thesis by simp
qed

section \<open>The order of the steps\<close>

text \<open>
  Claim C8, as stated, fails: \<open>createPoll\<close> validates before it authenticates. With no
  session and an empty form, the returned error is the validation message, not the one
  of the authentication check, and the authentication service is not called at all.
\<close>

theorem createPoll_validates_first_counterexample:
  "auth_user (session None None) = None
   \<and> fst (createPoll (session None None) [] world0) =
       Returned (Some (js ''Question is required, At least 2 options are required''))
   \<and> fst (createPoll (session None None) [] world0) \<noteq>
       Returned (Some (js ''You must be logged in to create a poll.''))
   \<and> calls world0 (snd (createPoll (session None None) [] world0)) = []"
proof -
  have errs: "validatePollInput (rawQuestion []) (rawOptions []) =
      [js ''Question is required'', js ''At least 2 options are required'']"
    by code_simp
  have joined: "js ''Question is required'' @ js '', '' @ js ''At least 2 options are required'' =
      js ''Question is required, At least 2 options are required''"
    by code_simp
  have differ: "js ''Question is required, At least 2 options are required'' \<noteq>
      js ''You must be logged in to create a poll.''"
    by code_simp
  have "createPoll (session None None) [] world0 =
      (Returned (Some (js ''Question is required, At least 2 options are required'')), world0)"
    by (simp add: createPoll_invalid errs joined)
  with differ show ?thesis
    by (simp add: session_def)
qed

text \<open>
  Claim C8, amended. Every request handler performs its steps in the order validate,
  then authenticate, then authorize, then delegate to the backend, then invalidate
  cache, a handler passing over the steps it does not have. \<open>createPoll\<close> and
  \<open>updatePoll\<close> with invalid input return the joined validation messages and call
  nothing, whoever the caller is, so for an unauthenticated caller with invalid input
  the validation failure determines the returned error; with valid input their first
  call is the one to the authentication service. \<open>adminDeletePoll\<close> returns the error
  of the authentication service whatever the role is, and refuses a caller who is
  authenticated but no administrator before any call to the database. A write is sent
  only when validation, authentication and the role check have passed, and a delete or
  update of a caller's own polls carries the ownership filter for the authenticated
  user. Cache invalidation is requested only when the database has reported no error.
  In each of the seven handlers the calls come in the order authentication, database,
  cache invalidation, each at most once.
\<close>

theorem validation_precedes_authentication:
  "(validatePollInput (rawQuestion fd) (rawOptions fd) \<noteq> [] \<longrightarrow>
      createPoll e fd w =
        (Returned (Some (join (js '', '') (validatePollInput (rawQuestion fd) (rawOptions fd)))), w)
    \<and> updatePoll e pollId fd w =
        (Returned (Some (join (js '', '') (validatePollInput (rawQuestion fd) (rawOptions fd)))), w))
   \<and> (validatePollInput (rawQuestion fd) (rawOptions fd) = [] \<longrightarrow>
      take 1 (calls w (snd (createPoll e fd w))) = [GetUser]
    \<and> take 1 (calls w (snd (updatePoll e pollId fd w))) = [GetUser])
   \<and> (\<forall>m. auth_error e = Some m \<longrightarrow> adminDeletePoll e pollId w = (Some m, emit GetUser w))
   \<and> (\<forall>u. auth_error e = None \<and> auth_user e = Some u \<and> u_role u \<noteq> Some (js ''admin'') \<longrightarrow>
        adminDeletePoll e pollId w =
          (Some (js ''Admin privileges required to delete any poll.''), emit GetUser w))
   \<and> (\<forall>uid q os. InsertPoll uid q os \<in> set (calls w (snd (createPoll e fd w))) \<longrightarrow>
        validatePollInput (rawQuestion fd) (rawOptions fd) = [] \<and> auth_error e = None
      \<and> (\<exists>u. auth_user e = Some u \<and> uid = u_id u))
   \<and> (\<forall>q os cs. UpdatePolls q os cs \<in> set (calls w (snd (updatePoll e pollId fd w))) \<longrightarrow>
        validatePollInput (rawQuestion fd) (rawOptions fd) = [] \<and> auth_error e = None
      \<and> (\<exists>u. auth_user e = Some u \<and> cs = [Eq Id pollId, Eq User_id (u_id u)]))
   \<and> (\<forall>cs. DeletePolls cs \<in> set (calls w (snd (deletePoll e pollId w))) \<longrightarrow>
        auth_error e = None
      \<and> (\<exists>u. auth_user e = Some u \<and> cs = [Eq Id pollId, Eq User_id (u_id u)]))
   \<and> (\<forall>cs. DeletePolls cs \<in> set (calls w (snd (adminDeletePoll e pollId w))) \<longrightarrow>
        auth_error e = None
      \<and> (\<exists>u. auth_user e = Some u \<and> u_role u = Some (js ''admin'') \<and> cs = [Eq Id pollId]))
   \<and> (\<forall>path. RevalidatePath path \<in> set (calls w (snd (createPoll e fd w))) \<longrightarrow>
        db_error e = None)
   \<and> (\<forall>path. RevalidatePath path \<in> set (calls w (snd (deletePoll e pollId w))) \<longrightarrow>
        db_error e = None)
   \<and> (\<forall>path. RevalidatePath path \<in> set (calls w (snd (adminDeletePoll e pollId w))) \<longrightarrow>
        db_error e = None)
   \<and> sorted_wrt (<) (map stage (calls w (snd (createPoll e fd w))))
   \<and> sorted_wrt (<) (map stage (calls w (snd (updatePoll e pollId fd w))))
   \<and> sorted_wrt (<) (map stage (calls w (snd (deletePoll e pollId w))))
   \<and> sorted_wrt (<) (map stage (calls w (snd (adminDeletePoll e pollId w))))
   \<and> sorted_wrt (<) (map stage (calls w (snd (submitVote e pollId optionIndex w))))
   \<and> sorted_wrt (<) (map stage (calls w (snd (getUserPolls e w))))
   \<and> sorted_wrt (<) (map stage (calls w (snd (getPollById e pollId w))))"
proof -
  have create: "(validatePollInput (rawQuestion fd) (rawOptions fd) \<noteq> [] \<longrightarrow>
      createPoll e fd w =
        (Returned (Some (join (js '', '') (validatePollInput (rawQuestion fd) (rawOptions fd)))), w))
    \<and> (validatePollInput (rawQuestion fd) (rawOptions fd) = [] \<longrightarrow>
      take 1 (calls w (snd (createPoll e fd w))) = [GetUser])
    \<and> (\<forall>uid q os. InsertPoll uid q os \<in> set (calls w (snd (createPoll e fd w))) \<longrightarrow>
        validatePollInput (rawQuestion fd) (rawOptions fd) = [] \<and> auth_error e = None
      \<and> (\<exists>u. auth_user e = Some u \<and> uid = u_id u))
    \<and> (\<forall>path. RevalidatePath path \<in> set (calls w (snd (createPoll e fd w))) \<longrightarrow>
        db_error e = None)
    \<and> sorted_wrt (<) (map stage (calls w (snd (createPoll e fd w))))"
  proof (cases "validatePollInput (rawQuestion fd) (rawOptions fd) = []")
    case False
    then show ?thesis by (simp add: createPoll_invalid)
  next
    case True
    then obtain rq where rq: "rawQuestion fd = Some rq"
      using validated_question by blast
    from True show ?thesis
      by (simp add: createPoll_valid [OF True rq] split: option.splits)
  qed
  have update: "(validatePollInput (rawQuestion fd) (rawOptions fd) \<noteq> [] \<longrightarrow>
      updatePoll e pollId fd w =
        (Returned (Some (join (js '', '') (validatePollInput (rawQuestion fd) (rawOptions fd)))), w))
    \<and> (validatePollInput (rawQuestion fd) (rawOptions fd) = [] \<longrightarrow>
      take 1 (calls w (snd (updatePoll e pollId fd w))) = [GetUser])
    \<and> (\<forall>q os cs. UpdatePolls q os cs \<in> set (calls w (snd (updatePoll e pollId fd w))) \<longrightarrow>
        validatePollInput (rawQuestion fd) (rawOptions fd) = [] \<and> auth_error e = None
      \<and> (\<exists>u. auth_user e = Some u \<and> cs = [Eq Id pollId, Eq User_id (u_id u)]))
    \<and> sorted_wrt (<) (map stage (calls w (snd (updatePoll e pollId fd w))))"
  proof (cases "validatePollInput (rawQuestion fd) (rawOptions fd) = []")
    case False
    then show ?thesis by (simp add: updatePoll_invalid)
  next
    case True
    then obtain rq where rq: "rawQuestion fd = Some rq"
      using validated_question by blast
    from True show ?thesis
      by (simp add: updatePoll_valid [OF True rq] split: option.splits)
  qed
  have admin: "(\<forall>m. auth_error e = Some m \<longrightarrow>
        adminDeletePoll e pollId w = (Some m, emit GetUser w))
    \<and> (\<forall>u. auth_error e = None \<and> auth_user e = Some u \<and> u_role u \<noteq> Some (js ''admin'') \<longrightarrow>
        adminDeletePoll e pollId w =
          (Some (js ''Admin privileges required to delete any poll.''), emit GetUser w))
    \<and> (\<forall>cs. DeletePolls cs \<in> set (calls w (snd (adminDeletePoll e pollId w))) \<longrightarrow>
        auth_error e = None
      \<and> (\<exists>u. auth_user e = Some u \<and> u_role u = Some (js ''admin'') \<and> cs = [Eq Id pollId]))
    \<and> (\<forall>path. RevalidatePath path \<in> set (calls w (snd (adminDeletePoll e pollId w))) \<longrightarrow>
        db_error e = None)
    \<and> sorted_wrt (<) (map stage (calls w (snd (adminDeletePoll e pollId w))))"
    by (simp add: adminDeletePoll_eq split: option.splits)
  have delete: "(\<forall>cs. DeletePolls cs \<in> set (calls w (snd (deletePoll e pollId w))) \<longrightarrow>
        auth_error e = None
      \<and> (\<exists>u. auth_user e = Some u \<and> cs = [Eq Id pollId, Eq User_id (u_id u)]))
    \<and> (\<forall>path. RevalidatePath path \<in> set (calls w (snd (deletePoll e pollId w))) \<longrightarrow>
        db_error e = None)
    \<and> sorted_wrt (<) (map stage (calls w (snd (deletePoll e pollId w))))"
    by (simp add: deletePoll_eq split: option.splits)
  have rest: "sorted_wrt (<) (map stage (calls w (snd (submitVote e pollId optionIndex w))))
    \<and> sorted_wrt (<) (map stage (calls w (snd (getUserPolls e w))))
    \<and> sorted_wrt (<) (map stage (calls w (snd (getPollById e pollId w))))"
    by (simp add: submitVote_eq getUserPolls_eq getPollById_calls split: option.splits)
  from create update admin delete rest show ?thesis
    by blast
qed

text \<open>
  A form without options is refused before anybody is asked who the caller is; a
  well-formed one goes to the authentication service first. With an expired session
  \<open>adminDeletePoll\<close> returns the error of the authentication service, and it refuses
  Alice, who has no role, after the authentication service alone was called. The delete
  Alice sends for her poll \<open>p2\<close> carries her identifier, and the invalidation follows a
  database call without error.
\<close>

theorem validation_precedes_authentication_witness:
  "validatePollInput (rawQuestion []) (rawOptions []) \<noteq> []
   \<and> snd (createPoll (session None None) [] world0) = world0
   \<and> snd (updatePoll (session None None) (js ''p1'') [] world0) = world0
   \<and> validatePollInput (rawQuestion good_form) (rawOptions good_form) = []
   \<and> take 1 (calls world0 (snd (createPoll (session None None) good_form world0))) = [GetUser]
   \<and> take 1 (calls world0 (snd (updatePoll (session None None) (js ''p1'') good_form world0))) =
       [GetUser]
   \<and> fst (adminDeletePoll ((session (Some alice) None)\<lparr>auth_error := Some (js ''expired'')\<rparr>)
         (js ''p1'') world0) = Some (js ''expired'')
   \<and> adminDeletePoll (session (Some alice) None) (js ''p1'') world0 =
       (Some (js ''Admin privileges required to delete any poll.''), emit GetUser world0)
   \<and> (\<exists>u. auth_user (session (Some alice) None) = Some u
         \<and> [Eq Id (js ''p2''), Eq User_id (js ''alice'')] =
             [Eq Id (js ''p2''), Eq User_id (u_id u)])
   \<and> db_error (session (Some alice) None) = None"
proof -
  have bad: "validatePollInput (rawQuestion []) (rawOptions []) \<noteq> []"
    by code_simp
  note A = validation_precedes_authentication
         [where fd = "[]" and e = "session None None" and w = world0 and pollId = "js ''p1''"]
  note B = validation_precedes_authentication
         [where fd = good_form and e = "session None None" and w = world0
            and pollId = "js ''p1''"]
  note C = validation_precedes_authentication
         [where fd = good_form
            and e = "(session (Some alice) None)\<lparr>auth_error := Some (js ''expired'')\<rparr>"
            and w = world0 and pollId = "js ''p1''"]
  note D = validation_precedes_authentication
         [where fd = good_form and e = "session (Some alice) None" and w = world0
            and pollId = "js ''p1''"]
  note E = validation_precedes_authentication
         [where fd = good_form and e = "session (Some alice) None" and w = world0
            and pollId = "js ''p2''"]
  have a: "snd (createPoll (session None None) [] world0) = world0
      \<and> snd (updatePoll (session None None) (js ''p1'') [] world0) = world0"
    using A bad by simp
  have b: "take 1 (calls world0 (snd (createPoll (session None None) good_form world0))) =
        [GetUser]
      \<and> take 1 (calls world0 (snd (updatePoll (session None None) (js ''p1'') good_form
          world0))) = [GetUser]"
    using B good_form_valid by blast
  have "auth_error ((session (Some alice) None)\<lparr>auth_error := Some (js ''expired'')\<rparr>) =
      Some (js ''expired'')"
    by simp
  with C have c: "fst (adminDeletePoll
      ((session (Some alice) None)\<lparr>auth_error := Some (js ''expired'')\<rparr>) (js ''p1'') world0) =
      Some (js ''expired'')"
    by (metis fst_conv)
  have "auth_error (session (Some alice) None) = None
      \<and> auth_user (session (Some alice) None) = Some alice
      \<and> u_role alice \<noteq> Some (js ''admin'')"
    by (simp add: session_def alice_def)
  with D have d: "adminDeletePoll (session (Some alice) None) (js ''p1'') world0 =
       (Some (js ''Admin privileges required to delete any poll.''), emit GetUser world0)"
    by blast
  have sent: "DeletePolls [Eq Id (js ''p2''), Eq User_id (js ''alice'')]
      \<in> set (calls world0 (snd (deletePoll (session (Some alice) None) (js ''p2'') world0)))"
    and inval: "RevalidatePath (js ''/polls'')
      \<in> set (calls world0 (snd (deletePoll (session (Some alice) None) (js ''p2'') world0)))"
    by (simp_all add: deletePoll_eq session_def alice_def)
  from E sent have e1: "\<exists>u. auth_user (session (Some alice) None) = Some u
         \<and> [Eq Id (js ''p2''), Eq User_id (js ''alice'')] =
             [Eq Id (js ''p2''), Eq User_id (u_id u)]"
    by blast
  from E inval have e2: "db_error (session (Some alice) None) = None"
    by blast
  from bad good_form_valid a b c d e1 e2 show ?thesis
    by blast
qed

section \<open>Cache invalidation\<close>

text \<open>
  Claim C9, as stated, fails: \<open>submitVote\<close> writes Alice's vote, the database accepts
  it, and no invalidation of \<open>/polls\<close> is requested.
\<close>

theorem submitVote_no_invalidation_counterexample:
  "db_error (session (Some alice) None) = None
   \<and> fst (submitVote (session (Some alice) None) (js ''p1'') 0 world0) = None
   \<and> votes (snd (submitVote (session (Some alice) None) (js ''p1'') 0 world0)) =
       [\<lparr>v_poll_id = js ''p1'', v_user_id = Some (js ''alice''), v_option_index = 0\<rparr>]
   \<and> RevalidatePath (js ''/polls'') \<notin>
       set (trace (snd (submitVote (session (Some alice) None) (js ''p1'') 0 world0)))"
  by (simp add: submitVote_eq session_def world0_def alice_def)

text \<open>
  Claim C9, amended. \<open>createPoll\<close>, \<open>deletePoll\<close> and \<open>adminDeletePoll\<close>
  request the invalidation of \<open>/polls\<close> after every successful write: whenever one of
  them has sent a write and the database reports no error, its calls are the one to the
  authentication service, the write, and the invalidation of \<open>/polls\<close>, in this
  order. \<open>submitVote\<close> requests no invalidation.
\<close>

theorem cache_invalidation_after_write:
  "(db_error e = None \<longrightarrow>
      ((\<exists>ev\<in>set (calls w (snd (createPoll e fd w))). is_write ev) \<longrightarrow>
         (\<exists>ev. is_write ev \<and>
            calls w (snd (createPoll e fd w)) = [GetUser, ev, RevalidatePath (js ''/polls'')]))
    \<and> ((\<exists>ev\<in>set (calls w (snd (deletePoll e ident w))). is_write ev) \<longrightarrow>
         (\<exists>ev. is_write ev \<and>
            calls w (snd (deletePoll e ident w)) = [GetUser, ev, RevalidatePath (js ''/polls'')]))
    \<and> ((\<exists>ev\<in>set (calls w (snd (adminDeletePoll e ident w))). is_write ev) \<longrightarrow>
         (\<exists>ev. is_write ev \<and>
            calls w (snd (adminDeletePoll e ident w)) =
              [GetUser, ev, RevalidatePath (js ''/polls'')])))
   \<and> (\<forall>path. RevalidatePath path \<notin> set (calls w (snd (submitVote e ident optionIndex w))))"
proof -
  have create: "db_error e = None \<longrightarrow>
      (\<exists>ev\<in>set (calls w (snd (createPoll e fd w))). is_write ev) \<longrightarrow>
         (\<exists>ev. is_write ev \<and>
            calls w (snd (createPoll e fd w)) = [GetUser, ev, RevalidatePath (js ''/polls'')])"
  proof (cases "validatePollInput (rawQuestion fd) (rawOptions fd) = []")
    case False
    then show ?thesis by (simp add: createPoll_invalid)
  next
    case True
    then obtain rq where rq: "rawQuestion fd = Some rq"
      using validated_question by blast
    show ?thesis
      by (simp add: createPoll_valid [OF True rq] split: option.splits)
  qed
  have others: "db_error e = None \<longrightarrow>
      ((\<exists>ev\<in>set (calls w (snd (deletePoll e ident w))). is_write ev) \<longrightarrow>
         (\<exists>ev. is_write ev \<and>
            calls w (snd (deletePoll e ident w)) = [GetUser, ev, RevalidatePath (js ''/polls'')]))
    \<and> ((\<exists>ev\<in>set (calls w (snd (adminDeletePoll e ident w))). is_write ev) \<longrightarrow>
         (\<exists>ev. is_write ev \<and>
            calls w (snd (adminDeletePoll e ident w)) =
              [GetUser, ev, RevalidatePath (js ''/polls'')]))"
    by (simp add: deletePoll_eq adminDeletePoll_eq split: option.splits)
  have vote: "\<forall>path. RevalidatePath path \<notin> set (calls w (snd (submitVote e ident optionIndex w)))"
    by (simp add: submitVote_eq)
  from create others vote show ?thesis by blast
qed

text \<open>
  Alice creates a poll and deletes her poll \<open>p2\<close>, the administrator deletes \<open>p1\<close>:
  each time the last call is the invalidation of \<open>/polls\<close>.
\<close>

theorem cache_invalidation_after_write_witness:
  "db_error (session (Some alice) None) = None
   \<and> (\<exists>ev. is_write ev \<and>
         calls world0 (snd (createPoll (session (Some alice) None) good_form world0)) =
           [GetUser, ev, RevalidatePath (js ''/polls'')])
   \<and> (\<exists>ev. is_write ev \<and>
         calls world0 (snd (deletePoll (session (Some alice) None) (js ''p2'') world0)) =
           [GetUser, ev, RevalidatePath (js ''/polls'')])
   \<and> (\<exists>ev. is_write ev \<and>
         calls world0 (snd (adminDeletePoll (session (Some root) None) (js ''p1'') world0)) =
           [GetUser, ev, RevalidatePath (js ''/polls'')])"
proof -
  have d: "db_error (session (Some alice) None) = None"
    and d': "db_error (session (Some root) None) = None"
    by (simp_all add: session_def)
  have c: "\<exists>ev\<in>set (calls world0 (snd (createPoll (session (Some alice) None) good_form world0))).
      is_write ev"
    by (simp add: createPoll_valid [OF good_form_valid good_form_question] session_def)
  have del: "\<exists>ev\<in>set (calls world0 (snd (deletePoll (session (Some alice) None) (js ''p2'') world0))).
      is_write ev"
    by (simp add: deletePoll_eq session_def)
  have adm: "\<exists>ev\<in>set (calls world0 (snd (adminDeletePoll (session (Some root) None) (js ''p1'')
      world0))). is_write ev"
    by (simp add: adminDeletePoll_eq session_def root_def)
  from cache_invalidation_after_write
         [where e = "session (Some alice) None" and w = world0 and fd = good_form
            and ident = "js ''p2''"] d c del
       cache_invalidation_after_write
         [where e = "session (Some root) None" and w = world0 and fd = good_form
            and ident = "js ''p1''"] d' adm
  show ?thesis by blast
qed

section \<open>What validation accepts\<close>

text \<open>
  Claim C3. \<open>validatePollInput\<close> returns the empty error list if and only if the
  question is present and, trimmed, is non-empty and at most 500 code units long, there
  are between 2 and 10 options, and every option, trimmed, is non-empty and at most 200
  code units long. In particular a list of fewer than 2 or more than 10 options gives a
  non-empty error list. When the error list of the submitted form is not empty,
  \<open>createPoll\<close> and \<open>updatePoll\<close> return the messages joined by a comma and a space
  and leave the world as it is: no call to the database or to anything else is made.
\<close>

theorem validatePollInput_accepts_iff:
  "(validatePollInput question opts = [] \<longleftrightarrow>
      (\<exists>q. question = Some q \<and> trim q \<noteq> [] \<and> length (trim q) \<le> 500)
    \<and> 2 \<le> length opts \<and> length opts \<le> 10
    \<and> (\<forall>opt\<in>set opts. trim opt \<noteq> [] \<and> length (trim opt) \<le> 200))
   \<and> (length opts < 2 \<or> 10 < length opts \<longrightarrow> validatePollInput question opts \<noteq> [])
   \<and> (validatePollInput (rawQuestion fd) (rawOptions fd) \<noteq> [] \<longrightarrow>
        createPoll e fd w =
          (Returned (Some (join (js '', '') (validatePollInput (rawQuestion fd) (rawOptions fd)))), w)
      \<and> updatePoll e pollId fd w =
          (Returned (Some (join (js '', '') (validatePollInput (rawQuestion fd) (rawOptions fd)))), w))"
proof -
  have iff: "validatePollInput question opts = [] \<longleftrightarrow>
      (\<exists>q. question = Some q \<and> trim q \<noteq> [] \<and> length (trim q) \<le> 500)
    \<and> 2 \<le> length opts \<and> length opts \<le> 10
    \<and> (\<forall>opt\<in>set opts. trim opt \<noteq> [] \<and> length (trim opt) \<le> 200)"
    by (simp add: validatePollInput_def validateQuestion_Nil_iff validateCount_Nil_iff
        validateOptions_Nil_iff)
  have count: "length opts < 2 \<or> 10 < length opts \<longrightarrow> validatePollInput question opts \<noteq> []"
    by (auto simp add: validatePollInput_def validateCount_def)
  from iff count show ?thesis
    by (simp add: createPoll_invalid updatePoll_invalid)
qed

text \<open>
  A question with two short options is accepted; one option alone is refused, and
  \<open>createPoll\<close> then returns the message without touching the world.
\<close>

theorem validatePollInput_accepts_iff_witness:
  "validatePollInput (Some (js ''Up or down?'')) [js ''Up'', js ''Down''] = []
   \<and> validatePollInput (Some (js ''Up or down?'')) [js ''Up''] \<noteq> []
   \<and> validatePollInput (rawQuestion blank_option_form) (rawOptions blank_option_form) \<noteq> []
   \<and> createPoll (session (Some alice) None) blank_option_form world0 =
       (Returned (Some (js ''At least 2 options are required'')), world0)"
proof -
  have q: "trim (js ''Up or down?'') = js ''Up or down?''"
    and o1: "trim (js ''Up'') = js ''Up''"
    and o2: "trim (js ''Down'') = js ''Down''"
    by code_simp+
  have len: "length (js ''Up or down?'') = 11" "length (js ''Up'') = 2" "length (js ''Down'') = 4"
    by (simp_all add: js_def)
  have ne: "js ''Up or down?'' \<noteq> []" "js ''Up'' \<noteq> []" "js ''Down'' \<noteq> []"
    by (simp_all add: js_def)
  have accept: "validatePollInput (Some (js ''Up or down?'')) [js ''Up'', js ''Down''] = []"
    using validatePollInput_accepts_iff
            [where question = "Some (js ''Up or down?'')" and opts = "[js ''Up'', js ''Down'']"]
    by (simp add: q o1 o2 len ne)
  have refuse: "validatePollInput (Some (js ''Up or down?'')) [js ''Up''] \<noteq> []"
    using validatePollInput_accepts_iff
            [where question = "Some (js ''Up or down?'')" and opts = "[js ''Up'']"]
    by simp
  have errs: "validatePollInput (rawQuestion blank_option_form) (rawOptions blank_option_form) =
      [js ''At least 2 options are required'']"
    by code_simp
  from validatePollInput_accepts_iff
         [where fd = blank_option_form and e = "session (Some alice) None" and w = world0]
       accept refuse errs
  show ?thesis by simp
qed

section \<open>Empty and blank options\<close>

lemma unat_digit: "d < 10 \<Longrightarrow> unat (digit d) = 48 + d"
  by (simp only: digit_def unat_of_nat) simp

lemma isDigit_digit: "d < 10 \<Longrightarrow> isDigit (digit d)"
  by (simp add: isDigit_def word_le_nat_alt unat_digit)

lemma decimal_snoc: "decimal (s @ [c]) = 10 * decimal s + (unat c - 48)"
  by (simp add: decimal_def)

lemma decimal_numberToString: "decimal (numberToString n) = n"
proof (induction n rule: numberToString.induct)
  case (1 n)
  show ?case
  proof (cases "n < 10")
    case True
    then show ?thesis
      by (simp add: numberToString.simps [of n] decimal_def unat_digit)
  next
    case False
    with 1 show ?thesis
      by (simp add: numberToString.simps [of n] decimal_snoc unat_digit)
  qed
qed

lemma numberToString_inj: "numberToString n = numberToString m \<Longrightarrow> n = m"
  by (metis decimal_numberToString)

lemma numberToString_digits: "list_all isDigit (numberToString n)"
proof (induction n rule: numberToString.induct)
  case (1 n)
  show ?case
  proof (cases "n < 10")
    case True
    then show ?thesis
      by (simp add: numberToString.simps [of n] isDigit_digit)
  next
    case False
    with 1 show ?thesis
      by (simp add: numberToString.simps [of n] isDigit_digit)
  qed
qed

lemma digits_then_rest:
  assumes "list_all isDigit xs" and "list_all isDigit ys"
    and "\<not> isDigit a" and "\<not> isDigit b" and "xs @ a # as = ys @ b # bs"
  shows "xs = ys \<and> as = bs"
proof -
  have "takeWhile isDigit (xs @ a # as) = xs"
    using assms(1,3) by (simp add: takeWhile_append2 list_all_iff)
  moreover have "takeWhile isDigit (ys @ b # bs) = ys"
    using assms(2,4) by (simp add: takeWhile_append2 list_all_iff)
  ultimately have "xs = ys"
    using assms(5) by simp
  with assms(5) show ?thesis by simp
qed

lemma space_no_digit: "\<not> isDigit 32"
  by (simp add: isDigit_def)

lemma cannot_eq_iff:
  "js ''Option '' @ numberToString n @ js '' cannot be empty'' =
   js ''Option '' @ numberToString m @ js '' cannot be empty'' \<longleftrightarrow> n = m"
  by (auto dest: numberToString_inj)

lemma cannot_neq_must:
  "js ''Option '' @ numberToString n @ js '' cannot be empty'' \<noteq>
   js ''Option '' @ numberToString m @ js '' must be less than 200 characters''"
proof
  assume "js ''Option '' @ numberToString n @ js '' cannot be empty'' =
   js ''Option '' @ numberToString m @ js '' must be less than 200 characters''"
  then have "numberToString n @ 32 # js ''cannot be empty'' =
      numberToString m @ 32 # js ''must be less than 200 characters''"
    by (simp add: js_def)
  then have "js ''cannot be empty'' = js ''must be less than 200 characters''"
    using digits_then_rest [OF numberToString_digits numberToString_digits space_no_digit
        space_no_digit] by blast
  then show False
    by (simp add: js_def)
qed

lemma trim_empty_iff: "trim s = [] \<longleftrightarrow> (\<forall>c\<in>set s. isWhiteSpace c)"
proof
  assume "trim s = []"
  then have "\<forall>c\<in>set (dropWhile isWhiteSpace s). isWhiteSpace c"
    by (simp add: trim_def dropWhile_eq_Nil_conv)
  then have "dropWhile isWhiteSpace s = []"
    by (metis hd_dropWhile list.set_sel(1))
  then show "\<forall>c\<in>set s. isWhiteSpace c"
    by (simp add: dropWhile_eq_Nil_conv)
next
  assume "\<forall>c\<in>set s. isWhiteSpace c"
  then have "dropWhile isWhiteSpace s = []"
    by (simp add: dropWhile_eq_Nil_conv)
  then show "trim s = []"
    by (simp add: trim_def del: dropWhile_eq_Nil_conv)
qed

lemma cannot_in_validateOptions:
  "js ''Option '' @ numberToString n @ js '' cannot be empty'' \<in> set (validateOptions i opts)
   \<longleftrightarrow> i < n \<and> n \<le> i + length opts \<and> trim (opts ! (n - 1 - i)) = []"
proof (induction opts arbitrary: i)
  case Nil
  then show ?case by auto
next
  case (Cons opt rest)
  have here: "js ''Option '' @ numberToString n @ js '' cannot be empty'' \<in>
      set (if opt = [] \<or> length (trim opt) = 0 then
        [js ''Option '' @ numberToString (i + 1) @ js '' cannot be empty'']
      else if length (trim opt) > 200 then
        [js ''Option '' @ numberToString (i + 1) @ js '' must be less than 200 characters'']
      else []) \<longleftrightarrow> n = i + 1 \<and> trim opt = []"
    using cannot_eq_iff [of n "i + 1"] cannot_neq_must [of n "i + 1"] by auto
  have later: "(opt # rest) ! (n - 1 - i) = rest ! (n - 1 - (i + 1))" if "i + 1 < n"
  proof -
    from that have "n - 1 - i = Suc (n - 1 - (i + 1))"
      by arith
    then show ?thesis
      by (simp only: nth_Cons_Suc)
  qed
  show ?case
  proof (cases "n = i + 1")
    case True
    with here Cons.IH [of "i + 1"] show ?thesis by auto
  next
    case False
    with here Cons.IH [of "i + 1"] later show ?thesis by auto
  qed
qed

lemma not_question_message:
  "js ''Option '' @ numberToString n @ js '' cannot be empty'' \<notin> set (validateQuestion q)"
  by (cases q) (simp_all add: validateQuestion_def js_def)

lemma not_count_message:
  "js ''Option '' @ numberToString n @ js '' cannot be empty'' \<notin> set (validateCount opts)"
  by (simp add: validateCount_def js_def)

lemma cannot_in_validatePollInput:
  "js ''Option '' @ numberToString n @ js '' cannot be empty'' \<in> set (validatePollInput q opts)
   \<longleftrightarrow> 1 \<le> n \<and> n \<le> length opts \<and> trim (opts ! (n - 1)) = []"
  using cannot_in_validateOptions [of n 0 opts]
  by (auto simp add: validatePollInput_def not_question_message not_count_message)

text \<open>
  Claim C10. In \<open>createPoll\<close> and \<open>updatePoll\<close> the options that are validated are
  the submitted values without the empty strings: an empty field lowers the number of
  options by one. The handlers return the messages of this validation. The message
  \<open>Option n cannot be empty\<close> is among them exactly when the \<open>n\<close>-th of the
  remaining options is a non-empty string of whitespace only, so an empty field never
  produces it.
\<close>

theorem empty_options_dropped_before_validation:
  "rawOptions fd = filter (\<lambda>v. v \<noteq> []) (formData_getAll fd (js ''options''))
   \<and> [] \<notin> set (rawOptions fd)
   \<and> length (rawOptions fd) + length (filter (\<lambda>v. v = []) (formData_getAll fd (js ''options'')))
       = length (formData_getAll fd (js ''options''))
   \<and> (validatePollInput (rawQuestion fd) (rawOptions fd) \<noteq> [] \<longrightarrow>
        fst (createPoll e fd w) =
          Returned (Some (join (js '', '') (validatePollInput (rawQuestion fd) (rawOptions fd))))
      \<and> fst (updatePoll e pollId fd w) =
          Returned (Some (join (js '', '') (validatePollInput (rawQuestion fd) (rawOptions fd)))))
   \<and> (\<forall>n. js ''Option '' @ numberToString n @ js '' cannot be empty''
            \<in> set (validatePollInput (rawQuestion fd) (rawOptions fd)) \<longleftrightarrow>
          1 \<le> n \<and> n \<le> length (rawOptions fd) \<and> rawOptions fd ! (n - 1) \<noteq> []
        \<and> (\<forall>c\<in>set (rawOptions fd ! (n - 1)). isWhiteSpace c))"
proof -
  have nonempty: "[] \<notin> set (rawOptions fd)"
    by (simp add: rawOptions_def)
  have count: "length (rawOptions fd)
      + length (filter (\<lambda>v. v = []) (formData_getAll fd (js ''options'')))
      = length (formData_getAll fd (js ''options''))"
    using sum_length_filter_compl [of "\<lambda>v. v \<noteq> []" "formData_getAll fd (js ''options'')"]
    by (simp add: rawOptions_def)
  have msg: "js ''Option '' @ numberToString n @ js '' cannot be empty''
            \<in> set (validatePollInput (rawQuestion fd) (rawOptions fd)) \<longleftrightarrow>
          1 \<le> n \<and> n \<le> length (rawOptions fd) \<and> rawOptions fd ! (n - 1) \<noteq> []
        \<and> (\<forall>c\<in>set (rawOptions fd ! (n - 1)). isWhiteSpace c)" for n
  proof (cases "1 \<le> n \<and> n \<le> length (rawOptions fd)")
    case True
    then have "n - 1 < length (rawOptions fd)"
      by arith
    then have "rawOptions fd ! (n - 1) \<in> set (rawOptions fd)"
      by (rule nth_mem)
    with nonempty have "rawOptions fd ! (n - 1) \<noteq> []"
      by metis
    with True show ?thesis
      by (simp add: cannot_in_validatePollInput trim_empty_iff)
  next
    case False
    then show ?thesis
      by (auto simp add: cannot_in_validatePollInput)
  qed
  from nonempty count msg show ?thesis
    by (simp add: createPoll_invalid updatePoll_invalid rawOptions_def [symmetric])
qed

text \<open>
  A form whose second option is empty is refused for having one option only, with no
  message about option 2; a form whose second option is two spaces is refused with
  \<open>Option 2 cannot be empty\<close>.
\<close>

theorem empty_options_dropped_before_validation_witness:
  "fst (createPoll (session (Some alice) None) blank_option_form world0) =
     Returned (Some (js ''At least 2 options are required''))
   \<and> js ''Option '' @ numberToString 2 @ js '' cannot be empty''
       \<notin> set (validatePollInput (rawQuestion blank_option_form) (rawOptions blank_option_form))
   \<and> fst (createPoll (session (Some alice) None) spaces_option_form world0) =
       Returned (Some (js ''Option 2 cannot be empty''))
   \<and> js ''Option '' @ numberToString 2 @ js '' cannot be empty''
       \<in> set (validatePollInput (rawQuestion spaces_option_form) (rawOptions spaces_option_form))"
proof -
  have blank: "validatePollInput (rawQuestion blank_option_form) (rawOptions blank_option_form) =
      [js ''At least 2 options are required'']"
    by code_simp
  have blank_opts: "rawOptions blank_option_form = [js ''Up'']"
    by code_simp
  have spaces: "validatePollInput (rawQuestion spaces_option_form) (rawOptions spaces_option_form) =
      [js ''Option 2 cannot be empty'']"
    by code_simp
  have spaces_opts: "rawOptions spaces_option_form = [js ''Up'', js ''  '']"
    by code_simp
  have white: "js ''  '' \<noteq> [] \<and> (\<forall>c\<in>set (js ''  ''). isWhiteSpace c)"
    by (simp add: js_def isWhiteSpace_def)
  note B = empty_options_dropped_before_validation
         [where fd = blank_option_form and e = "session (Some alice) None" and w = world0
            and pollId = "js ''p1''"]
  note S = empty_options_dropped_before_validation
         [where fd = spaces_option_form and e = "session (Some alice) None" and w = world0
            and pollId = "js ''p1''"]
  have b1: "fst (createPoll (session (Some alice) None) blank_option_form world0) =
      Returned (Some (js ''At least 2 options are required''))"
  proof -
    from blank have "validatePollInput (rawQuestion blank_option_form)
        (rawOptions blank_option_form) \<noteq> []"
      by simp
    with B have "fst (createPoll (session (Some alice) None) blank_option_form world0) =
        Returned (Some (join (js '', '') (validatePollInput (rawQuestion blank_option_form)
          (rawOptions blank_option_form))))"
      by blast
    then show ?thesis
      by (simp add: blank)
  qed
  have b2: "js ''Option '' @ numberToString 2 @ js '' cannot be empty''
       \<notin> set (validatePollInput (rawQuestion blank_option_form) (rawOptions blank_option_form))"
  proof -
    from B have "js ''Option '' @ numberToString 2 @ js '' cannot be empty''
        \<in> set (validatePollInput (rawQuestion blank_option_form) (rawOptions blank_option_form))
      \<longleftrightarrow> 1 \<le> (2::nat) \<and> 2 \<le> length (rawOptions blank_option_form)
        \<and> rawOptions blank_option_form ! (2 - 1) \<noteq> []
        \<and> (\<forall>c\<in>set (rawOptions blank_option_form ! (2 - 1)). isWhiteSpace c)"
      by blast
    then show ?thesis
      by (simp add: blank_opts)
  qed
  have s1: "fst (createPoll (session (Some alice) None) spaces_option_form world0) =
      Returned (Some (js ''Option 2 cannot be empty''))"
  proof -
    from spaces have "validatePollInput (rawQuestion spaces_option_form)
        (rawOptions spaces_option_form) \<noteq> []"
      by simp
    with S have "fst (createPoll (session (Some alice) None) spaces_option_form world0) =
        Returned (Some (join (js '', '') (validatePollInput (rawQuestion spaces_option_form)
          (rawOptions spaces_option_form))))"
      by blast
    then show ?thesis
      by (simp add: spaces)
  qed
  have s2: "js ''Option '' @ numberToString 2 @ js '' cannot be empty''
       \<in> set (validatePollInput (rawQuestion spaces_option_form) (rawOptions spaces_option_form))"
  proof -
    from S have "js ''Option '' @ numberToString 2 @ js '' cannot be empty''
        \<in> set (validatePollInput (rawQuestion spaces_option_form) (rawOptions spaces_option_form))
      \<longleftrightarrow> 1 \<le> (2::nat) \<and> 2 \<le> length (rawOptions spaces_option_form)
        \<and> rawOptions spaces_option_form ! (2 - 1) \<noteq> []
        \<and> (\<forall>c\<in>set (rawOptions spaces_option_form ! (2 - 1)). isWhiteSpace c)"
      by blast
    with white show ?thesis
      by (simp add: spaces_opts)
  qed
  from b1 b2 s1 s2 show ?thesis by blast
qed

section \<open>Sanitization\<close>

text \<open>
  The example of the specification: a script block on one line goes with its content,
  and the text behind it stays.
\<close>

lemma sanitizeString_example:
  "sanitizeString (js ''<script>alert(1)</script>Hello'') = js ''Hello''"
  by code_simp

text \<open>
  What is left by the second replacement holds no tag: no \<open><\<close> with a \<open>>\<close>
  somewhere behind it.
\<close>

lemma match_here_suffix: "match_here re s = Some t \<Longrightarrow> \<exists>p. s = p @ t"
proof (induction re s arbitrary: t rule: match_here.induct)
  case (3 c r x xs)
  then show ?case
    by (auto split: if_splits intro: Cons_eq_appendI)
next
  case (5 c r x xs)
  then show ?case
    by (auto split: option.splits if_splits intro: Cons_eq_appendI)
next
  case (7 c r x xs)
  then show ?case
    by (auto split: option.splits if_splits intro: Cons_eq_appendI)
qed auto

lemma set_replaceAll: "set (replaceAll re s) \<subseteq> set s"
proof (induction re s rule: replaceAll.induct)
  case (1 re)
  then show ?case by simp
next
  case (2 re x xs)
  show ?case
  proof (cases "match_here re (x # xs)")
    case None
    with 2 show ?thesis by auto
  next
    case (Some t)
    then obtain p where "x # xs = p @ t"
      using match_here_suffix by blast
    then have "set t \<subseteq> set (x # xs)"
      by (metis set_append sup_ge2)
    with 2 Some show ?thesis
      by (auto split: if_splits)
  qed
qed

lemma match_tag_body:
  "match_here [Greedy not_gt, One (lit CHR ''>'')] s =
     (case dropWhile not_gt s of [] \<Rightarrow> None | y # ys \<Rightarrow> Some ys)"
  by (induction s) (auto simp add: not_gt_def lit_def split: list.splits option.splits)

lemma match_tag:
  "match_here tag_re (x # xs) =
     (if x = of_char CHR ''<'' then
        (case dropWhile not_gt xs of [] \<Rightarrow> None | y # ys \<Rightarrow> Some ys)
      else None)"
  by (simp add: tag_re_def match_tag_body lit_def)

lemma replaceAll_tag_free:
  "no_tag (replaceAll tag_re s)"
proof (induction s rule: length_induct)
  case (1 s)
  show ?case
  proof (cases s)
    case Nil
    then show ?thesis by simp
  next
    case (Cons x xs)
    show ?thesis
    proof (cases "match_here tag_re (x # xs)")
      case None
      have tail: "no_tag (replaceAll tag_re xs)"
        using 1 Cons by simp
      have "of_char CHR ''>'' \<notin> set (replaceAll tag_re xs)" if "x = of_char CHR ''<''"
      proof -
        from None that have "dropWhile not_gt xs = []"
          by (simp add: match_tag split: list.splits)
        then have "of_char CHR ''>'' \<notin> set xs"
          by (auto simp add: dropWhile_eq_Nil_conv not_gt_def)
        with set_replaceAll [of tag_re xs] show ?thesis
          by blast
      qed
      with None tail Cons show ?thesis
        by simp
    next
      case (Some t)
      then obtain p where "x # xs = p @ t"
        using match_here_suffix by blast
      then have "length t \<le> length (x # xs)"
        by (metis length_append le_add2)
      show ?thesis
      proof (cases "length t < length (x # xs)")
        case True
        with 1 Cons have "no_tag (replaceAll tag_re t)"
          by simp
        with Some True Cons show ?thesis
          by simp
      next
        case False
        from Some obtain y where "dropWhile not_gt xs = y # t"
          by (auto simp add: match_tag split: if_splits list.splits)
        with length_dropWhile_le [of not_gt xs] have "length t < length (x # xs)"
          by simp
        with False show ?thesis by simp
      qed
    qed
  qed
qed

lemma sanitizeString_tag_free: "no_tag (sanitizeString input)"
  by (simp add: sanitizeString_def replaceAll_tag_free)

text \<open>
  Claim C4 does not hold of the code. The pattern for script blocks has \<open>.\<close> without
  the \<open>s\<close> flag, which matches no line terminator: a script block with a line break
  inside is not matched, the second pattern then takes its two tags away, and the
  content of the script stays in the result.
\<close>

theorem sanitizeString_keeps_multiline_script_content:
  "sanitizeString (js ''<script>'' @ [0xA] @ js ''alert(1)</script>Hello'') =
     [0xA] @ js ''alert(1)Hello''"
  by code_simp

end
